theory Spec2Isabelle
  imports Complex_Main "HOL-Library.AList" "HOL-Library.Log_Nat"
begin

section \<open>Python values and exceptions\<close>

text \<open>
  The service (\<^verbatim>\<open>src/main.py\<close>) keeps everything it gets from the language model as
  the value \<^verbatim>\<open>json.loads\<close> decoded, and inspects it with dynamically typed operations
  (\<^verbatim>\<open>.get\<close>, \<^verbatim>\<open>len\<close>, subscripts, \<^verbatim>\<open>==\<close>). The model keeps that: a decoded value is a
  \<open>json\<close>, and every operation that Python would answer with an exception returns the
  exception as a value.

  A Python \<^verbatim>\<open>str\<close> is a \<open>string\<close>, one \<open>char\<close> per code point; HOL's characters
  cover the code points below 256. A \<^verbatim>\<open>dict\<close> with string keys is an association list
  read through \<open>map_of\<close>. A \<^verbatim>\<open>float\<close> is the rational that the IEEE double is exactly,
  \<open>None\<close> standing for the three non-finite values; Python's \<^verbatim>\<open>None\<close> is \<open>JNull\<close>.
\<close>

datatype json =
    JNull
  | JBool bool
  | JInt int
  | JFloat "rat option"
  | JStr string
  | JList "json list"
  | JObj "(string \<times> json) list"

type_synonym pydict = "(string \<times> json) list"

datatype py_error =
  AttributeError | KeyError | IndexError | TypeError | ValueError | ZeroDivisionError | ModelError

text \<open>
  The \<^verbatim>\<open>detail\<close> of an \<^verbatim>\<open>HTTPException\<close>: one constructor per message of the source,
  with the values its f-string interpolates.
\<close>

datatype detail =
    NoActiveSession
  | CompletePreviousLessons
  | CurriculumNotFound
  | LessonNotFound int
  | ErrorFetchingLesson
  | ErrorGeneratingQuiz
  | NoQuestionsFound
  | NoValidAnswers
  | ErrorSubmittingQuiz
  | ChallengesNeedFourLessons int
  | ErrorGeneratingChallenge
  | ChallengeNotFound
  | ErrorEvaluatingCode
  | ErrorCreatingCourse

datatype exn = HTTPException int detail | PyError py_error

definition and_then :: "exn + 'a \<Rightarrow> ('a \<Rightarrow> exn + 'b) \<Rightarrow> exn + 'b" where
  "and_then r f = (case r of Inl e \<Rightarrow> Inl e | Inr v \<Rightarrow> f v)"

definition try_except :: "exn + 'a \<Rightarrow> 'a \<Rightarrow> 'a" where
  \<comment> \<open>\<^verbatim>\<open>try: return body  except Exception: return handler\<close>\<close>
  "try_except body handler = (case body of Inl e \<Rightarrow> handler | Inr v \<Rightarrow> v)"

definition except_500 :: "detail \<Rightarrow> exn + 'a \<Rightarrow> exn + 'a" where
  \<comment> \<open>\<^verbatim>\<open>except HTTPException: raise  except Exception: raise HTTPException(500, d)\<close>\<close>
  "except_500 d r =
     (case r of
        Inl (PyError e) \<Rightarrow> Inl (HTTPException 500 d)
      | Inl (HTTPException status dt) \<Rightarrow> Inl (HTTPException status dt)
      | Inr v \<Rightarrow> Inr v)"

definition dict_get :: "pydict \<Rightarrow> string \<Rightarrow> json \<Rightarrow> json" where
  \<comment> \<open>\<^verbatim>\<open>d.get(key, default)\<close> on a dict\<close>
  "dict_get d k dflt = (case map_of d k of None \<Rightarrow> dflt | Some v \<Rightarrow> v)"

definition py_get :: "json \<Rightarrow> string \<Rightarrow> json \<Rightarrow> exn + json" where
  \<comment> \<open>\<^verbatim>\<open>v.get(key, default)\<close>: only a dict has the method\<close>
  "py_get v k dflt =
     (case v of JObj d \<Rightarrow> Inr (dict_get d k dflt) | _ \<Rightarrow> Inl (PyError AttributeError))"

definition dict_getitem :: "pydict \<Rightarrow> string \<Rightarrow> exn + json" where
  \<comment> \<open>\<^verbatim>\<open>d[key]\<close> on a dict\<close>
  "dict_getitem d k = (case map_of d k of None \<Rightarrow> Inl (PyError KeyError) | Some v \<Rightarrow> Inr v)"

definition py_len :: "json \<Rightarrow> exn + int" where
  "py_len v =
     (case v of
        JStr s \<Rightarrow> Inr (int (length s))
      | JList xs \<Rightarrow> Inr (int (length xs))
      | JObj d \<Rightarrow> Inr (int (length (remdups (map fst d))))
      | _ \<Rightarrow> Inl (PyError TypeError))"

definition py_index :: "json \<Rightarrow> int \<Rightarrow> exn + json" where
  \<comment> \<open>\<^verbatim>\<open>v[i]\<close> with an int: a negative index counts from the end; a dict decoded from
      JSON has string keys only, so an int is never one of them\<close>
  "py_index v i =
     (case v of
        JList xs \<Rightarrow>
          (let n = int (length xs); j = (if i < 0 then i + n else i)
           in if 0 \<le> j \<and> j < n then Inr (xs ! nat j) else Inl (PyError IndexError))
      | JStr s \<Rightarrow>
          (let n = int (length s); j = (if i < 0 then i + n else i)
           in if 0 \<le> j \<and> j < n then Inr (JStr [s ! nat j]) else Inl (PyError IndexError))
      | JObj d \<Rightarrow> Inl (PyError KeyError)
      | _ \<Rightarrow> Inl (PyError TypeError))"

definition py_slice3 :: "json \<Rightarrow> exn + json" where
  \<comment> \<open>\<^verbatim>\<open>v[:3]\<close>\<close>
  "py_slice3 v =
     (case v of
        JList xs \<Rightarrow> Inr (JList (take 3 xs))
      | JStr s \<Rightarrow> Inr (JStr (take 3 s))
      | _ \<Rightarrow> Inl (PyError TypeError))"

definition py_truthy :: "json \<Rightarrow> bool" where
  "py_truthy v =
     (case v of
        JNull \<Rightarrow> False
      | JBool b \<Rightarrow> b
      | JInt i \<Rightarrow> i \<noteq> 0
      | JFloat None \<Rightarrow> True
      | JFloat (Some r) \<Rightarrow> r \<noteq> 0
      | JStr s \<Rightarrow> s \<noteq> []
      | JList xs \<Rightarrow> xs \<noteq> []
      | JObj d \<Rightarrow> d \<noteq> [])"

definition py_eq_int :: "int \<Rightarrow> json \<Rightarrow> bool" where
  \<comment> \<open>\<^verbatim>\<open>a == v\<close> for an int \<open>a\<close>: numbers compare by value, \<^verbatim>\<open>True\<close> is 1 and
      \<^verbatim>\<open>False\<close> is 0, nothing else equals an int\<close>
  "py_eq_int a v =
     (case v of
        JInt k \<Rightarrow> a = k
      | JBool b \<Rightarrow> a = (if b then 1 else 0)
      | JFloat (Some r) \<Rightarrow> of_int a = r
      | _ \<Rightarrow> False)"

fun str_nat :: "nat \<Rightarrow> string" where
  "str_nat n =
     (if n < 10 then [''0123456789'' ! n]
      else str_nat (n div 10) @ [''0123456789'' ! (n mod 10)])"

declare str_nat.simps [simp del]

definition str_int :: "int \<Rightarrow> string" where
  \<comment> \<open>\<^verbatim>\<open>str(i)\<close>, as an f-string renders an int\<close>
  "str_int i = (if i < 0 then CHR ''-'' # str_nat (nat (- i)) else str_nat (nat i))"

text \<open>
  Two library functions are parameters of the model: \<^verbatim>\<open>json.loads\<close>, which decodes a
  text or raises (\<open>None\<close>), and \<^verbatim>\<open>str\<close> on a decoded value, which the f-strings of the
  fallback documents apply to a lesson title.
\<close>

record python =
  json_loads :: "string \<Rightarrow> json option"
  str_of :: "json \<Rightarrow> string"

section \<open>Response Extractor\<close>

definition is_space :: "char \<Rightarrow> bool" where
  \<comment> \<open>the code points below 256 that \<^verbatim>\<open>str.strip()\<close> removes\<close>
  "is_space c =
     (let n = (of_char c :: nat)
      in (9 \<le> n \<and> n \<le> 13) \<or> (28 \<le> n \<and> n \<le> 32) \<or> n = 133 \<or> n = 160)"

definition strip :: "string \<Rightarrow> string" where
  "strip s = rev (dropWhile is_space (rev (dropWhile is_space s)))"

definition startswith :: "string \<Rightarrow> string \<Rightarrow> bool" where
  "startswith s p = (take (length p) s = p)"

definition endswith :: "string \<Rightarrow> string \<Rightarrow> bool" where
  "endswith s p = (length p \<le> length s \<and> drop (length s - length p) s = p)"

definition strip_fences :: "string \<Rightarrow> string" where
  \<comment> \<open>lines 90 to 100 of \<^verbatim>\<open>clean_json_response\<close>\<close>
  "strip_fences response_text =
     (let cleaned = strip response_text;
          cleaned = (if startswith cleaned ''```json'' then drop 7 cleaned else cleaned);
          cleaned = (if startswith cleaned ''```'' then drop 3 cleaned else cleaned);
          cleaned = (if endswith cleaned ''```'' then take (length cleaned - 3) cleaned else cleaned)
      in strip cleaned)"

fun scan_braces :: "string \<Rightarrow> int \<Rightarrow> int \<Rightarrow> int \<Rightarrow> int \<times> int" where
  \<comment> \<open>the \<^verbatim>\<open>for i, char in enumerate(cleaned)\<close> loop, from position \<open>i\<close> on; the result
      is \<open>(start_idx, end_idx)\<close>\<close>
  "scan_braces [] i brace_count start_idx = (start_idx, - 1)"
| "scan_braces (c # cs) i brace_count start_idx =
     (if c = CHR ''{'' then
        scan_braces cs (i + 1) (brace_count + 1) (if start_idx = - 1 then i else start_idx)
      else if c = CHR ''}'' then
        (if brace_count - 1 = 0 \<and> start_idx \<noteq> - 1 then (start_idx, i + 1)
         else scan_braces cs (i + 1) (brace_count - 1) start_idx)
      else scan_braces cs (i + 1) brace_count start_idx)"

definition clean_json_response :: "(string \<Rightarrow> json option) \<Rightarrow> string \<Rightarrow> exn + string" where
  "clean_json_response loads response_text =
     (let cleaned = strip_fences response_text;
          (start_idx, end_idx) = scan_braces cleaned 0 0 (- 1)
      in if start_idx \<noteq> - 1 \<and> end_idx \<noteq> - 1 then
           (let json_str = take (nat (end_idx - start_idx)) (drop (nat start_idx) cleaned)
            in case loads json_str of
                 None \<Rightarrow> Inl (PyError ValueError)
               | Some v \<Rightarrow> Inr json_str)
         else
           (case loads cleaned of
              None \<Rightarrow> Inl (PyError ValueError)
            | Some v \<Rightarrow> Inr cleaned))"


definition brace_free :: "string \<Rightarrow> bool" where
  "brace_free s = (CHR ''{'' \<notin> set s \<and> CHR ''}'' \<notin> set s)"



section \<open>Content Generator\<close>

text \<open>
  The language model is outside the program: what \<^verbatim>\<open>await llm.ainvoke(prompt)\<close> does in a
  request is an input of the model, either an exception or the text of the response. The
  prompt only feeds the language model, so it is not part of the model. The Arabic literals
  of the source are rendered by English glosses (a HOL string literal is ASCII); the shape
  of every document is the source's.
\<close>

datatype llm_outcome = LLMRaises | LLMContent string

definition ainvoke :: "llm_outcome \<Rightarrow> exn + string" where
  "ainvoke llm =
     (case llm of LLMRaises \<Rightarrow> Inl (PyError ModelError) | LLMContent text \<Rightarrow> Inr text)"

definition loads_or_raise :: "python \<Rightarrow> string \<Rightarrow> exn + json" where
  "loads_or_raise py s =
     (case json_loads py s of None \<Rightarrow> Inl (PyError ValueError) | Some v \<Rightarrow> Inr v)"

definition parse_response :: "python \<Rightarrow> llm_outcome \<Rightarrow> exn + json" where
  \<comment> \<open>the statements every generator's \<^verbatim>\<open>try\<close> block starts with: the call, the
      extraction, the decoding\<close>
  "parse_response py llm =
     and_then (ainvoke llm) (\<lambda>response.
     and_then (clean_json_response (json_loads py) response) (\<lambda>cleaned_response.
       loads_or_raise py cleaned_response))"

definition get_lesson_structure :: "string list" where
  "get_lesson_structure =
     [''Computer and operating system basics'',
      ''Installing Python and setting up the work environment'',
      ''Learning the basics of the language'',
      ''Working with variables and data types'',
      ''Controlling program flow with conditions and loops'',
      ''Functions'',
      ''Collections such as Lists, Tuples, Sets and Dictionaries'',
      ''Working with files'',
      ''Using modules and libraries'',
      ''Handling errors'',
      ''Building small practical projects'',
      ''Using package management tools such as pip and venv'',
      ''Working on open source projects or solving programming exercises'',
      ''Learning specialised libraries such as NumPy, Pandas and Matplotlib for data analysis'']"

definition fallback_lesson :: "string \<Rightarrow> nat \<times> string \<Rightarrow> json" where
  "fallback_lesson lang it =
     (case it of (i, title) \<Rightarrow>
        JObj [(''lesson_number'', JInt (int i + 1)),
              (''title'', JStr title),
              (''description'', JStr (''Learn '' @ title @ '' in the language '' @ lang)),
              (''objectives'',
                 JList [JStr (''Understand the basics of '' @ title),
                        JStr (''Apply '' @ title @ '' in practice''),
                        JStr (''Solve problems using '' @ title)])])"

definition fallback_curriculum :: "string \<Rightarrow> pydict" where
  "fallback_curriculum lang =
     [(''language'', JStr lang),
      (''lessons'', JList (map (fallback_lesson lang) (enumerate 0 get_lesson_structure)))]"

definition generate_curriculum :: "python \<Rightarrow> string \<Rightarrow> llm_outcome \<Rightarrow> pydict" where
  \<comment> \<open>the debug line evaluates \<^verbatim>\<open>len(curriculum.get('lessons', []))\<close> inside the
      \<^verbatim>\<open>try\<close>: a decoded value without \<^verbatim>\<open>.get\<close>, or with lessons that have no
      length, ends in the handler\<close>
  "generate_curriculum py lang llm =
     try_except
       (and_then (parse_response py llm) (\<lambda>decoded.
          case decoded of
            JObj d \<Rightarrow> and_then (py_len (dict_get d ''lessons'' (JList []))) (\<lambda>n. Inr d)
          | _ \<Rightarrow> Inl (PyError AttributeError)))
       (fallback_curriculum lang)"

definition fallback_lesson_content :: "python \<Rightarrow> string \<Rightarrow> int \<Rightarrow> json \<Rightarrow> pydict" where
  "fallback_lesson_content py lang lesson_number lesson_title =
     (let t = str_of py lesson_title in
      [(''introduction'',
          JStr (''Welcome to lesson '' @ str_int lesson_number @ '': '' @ t
                @ ''. In this lesson we learn the basic and important concepts of '' @ t @ ''.'')),
       (''detailed_explanation'',
          JStr (''In this lesson we learn '' @ t @ '' in the language '' @ lang
                @ ''. This topic is very important for beginners.'')),
       (''code_examples'',
          JList [JObj [(''title'', JStr ''A simple example''),
                       (''code'', JStr (''// a simple example in '' @ lang @ [CHR 0x0A] @ ''// '' @ t
                                       @ [CHR 0x0A] @ ''print(hello world);'')),
                       (''explanation'', JStr ''This example shows the basic concept'')]]),
       (''tips'',
          JList [JStr ''Practise the examples a lot'', JStr ''Read the code carefully'',
                 JStr ''Do not hesitate to ask questions'']),
       (''summary'', JStr (''In this lesson we learned '' @ t @ '' and why it matters''))])"

definition generate_lesson_content ::
  "python \<Rightarrow> string \<Rightarrow> int \<Rightarrow> json \<Rightarrow> llm_outcome \<Rightarrow> pydict" where
  \<comment> \<open>the debug line evaluates \<^verbatim>\<open>content.keys()\<close> inside the \<^verbatim>\<open>try\<close>\<close>
  "generate_lesson_content py lang lesson_number lesson_title llm =
     try_except
       (and_then (parse_response py llm) (\<lambda>decoded.
          case decoded of JObj d \<Rightarrow> Inr d | _ \<Rightarrow> Inl (PyError AttributeError)))
       (fallback_lesson_content py lang lesson_number lesson_title)"

definition fallback_quiz :: "python \<Rightarrow> int \<Rightarrow> json \<Rightarrow> json" where
  "fallback_quiz py lesson_number lesson_title =
     JObj [(''questions'',
        JList [JObj [(''question'',
                        JStr (''What is the main topic of lesson '' @ str_int lesson_number @ ''?'')),
                     (''options'',
                        JList [lesson_title, JStr ''Another topic'', JStr ''I do not know'',
                               JStr ''All of the above'']),
                     (''correct_answer'', JInt 0),
                     (''explanation'',
                        JStr (''The correct answer is '' @ str_of py lesson_title))]])]"

definition generate_quiz_questions ::
  "python \<Rightarrow> string \<Rightarrow> int \<Rightarrow> json \<Rightarrow> llm_outcome \<Rightarrow> json" where
  "generate_quiz_questions py lang lesson_number lesson_title llm =
     try_except (parse_response py llm) (fallback_quiz py lesson_number lesson_title)"

definition default_challenge_id :: "int \<Rightarrow> int \<Rightarrow> string" where
  \<comment> \<open>\<^verbatim>\<open>f"challenge_{lessons_completed}_{timestamp}"\<close>\<close>
  "default_challenge_id lessons_completed timestamp =
     ''challenge_'' @ str_int lessons_completed @ ''_'' @ str_int timestamp"

definition fallback_challenge :: "int \<Rightarrow> int \<Rightarrow> pydict" where
  "fallback_challenge lessons_completed timestamp =
     [(''challenge_id'', JStr (default_challenge_id lessons_completed timestamp)),
      (''title'', JStr (''Coding challenge after '' @ str_int lessons_completed @ '' lessons'')),
      (''description'',
         JStr (''Write a program that solves the following problem, based on lessons ''
               @ str_int (lessons_completed - 3) @ ''-'' @ str_int lessons_completed)),
      (''requirements'',
         JList [JStr ''The program must solve the required problem'',
                JStr ''The code must be clean and clear'']),
      (''example_input'', JStr ''The required input''),
      (''example_output'', JStr ''The expected output''),
      (''hints'',
         JList [JStr ''Think about using functions'', JStr ''Make sure every case is handled''])]"

definition generate_coding_challenge ::
  "python \<Rightarrow> string \<Rightarrow> int \<Rightarrow> int \<Rightarrow> llm_outcome \<Rightarrow> pydict" where
  \<comment> \<open>\<open>timestamp\<close> is \<^verbatim>\<open>int(datetime.now().timestamp())\<close>, read from the clock\<close>
  "generate_coding_challenge py lang lessons_completed timestamp llm =
     try_except
       (and_then (parse_response py llm) (\<lambda>decoded.
          case decoded of
            JObj d \<Rightarrow>
              (let challenge_id =
                     dict_get d ''challenge_id''
                       (JStr (default_challenge_id lessons_completed timestamp))
               in Inr (AList.update ''challenge_id'' challenge_id d))
          | _ \<Rightarrow> Inl (PyError AttributeError)))
       (fallback_challenge lessons_completed timestamp)"

definition fallback_evaluation :: json where
  "fallback_evaluation =
     JObj [(''is_correct'', JBool False),
           (''score'', JInt 0),
           (''feedback'', JStr ''Sorry, an error occurred while evaluating the code. Please try again.''),
           (''errors'', JList [JStr ''The code cannot be evaluated right now'']),
           (''hints'', JList [JStr ''Check the syntax of the code'']),
           (''suggestions'', JList [JStr ''Review the earlier lessons for the basic concepts''])]"

definition evaluate_code ::
  "python \<Rightarrow> string \<Rightarrow> string \<Rightarrow> string \<Rightarrow> pydict \<Rightarrow> llm_outcome \<Rightarrow> json" where
  \<comment> \<open>the code, the challenge id and the challenge only enter the prompt\<close>
  "evaluate_code py lang submitted challenge_id challenge llm =
     try_except (parse_response py llm) fallback_evaluation"

section \<open>Session Store\<close>

text \<open>
  \<^verbatim>\<open>memory_storage\<close> is the global dict of the service. Of its seven keys the handlers
  read and write three: the current session, the quiz cache and the stored coding
  challenges; the other four stay empty. A handler takes the store and returns the store
  it leaves behind with its response.
\<close>

record session =
  session_id :: string
  language :: string
  curriculum :: pydict
  current_lesson :: int
  completed_lessons :: "int list"
  chat_history :: "pydict list"
  created_at :: string

record challenge_entry =
  challenge_data :: pydict
  stored_session_id :: string
  stored_created_at :: string

record memory_storage =
  current_session :: "session option"
  quiz_cache :: "string \<rightharpoonup> json"
  coding_quizzes :: "string \<rightharpoonup> challenge_entry"

definition quiz_key :: "string \<Rightarrow> int \<Rightarrow> string" where
  \<comment> \<open>\<^verbatim>\<open>f"{session_id}_lesson_{lesson_number}"\<close>\<close>
  "quiz_key sid lesson_number = sid @ ''_lesson_'' @ str_int lesson_number"

definition challenge_key :: "string \<Rightarrow> int \<Rightarrow> string" where
  \<comment> \<open>\<^verbatim>\<open>f"{session_id}_challenge_{challenge_milestone}"\<close>\<close>
  "challenge_key sid challenge_milestone = sid @ ''_challenge_'' @ str_int challenge_milestone"

definition default_title :: "int \<Rightarrow> json" where
  \<comment> \<open>the default of \<^verbatim>\<open>lesson_info.get("title", ...)\<close>: the word lesson and the number\<close>
  "default_title lesson_number = JStr (''Lesson '' @ str_int lesson_number)"

section \<open>Request Handlers\<close>

definition lookup_lesson :: "pydict \<Rightarrow> int \<Rightarrow> exn + json" where
  \<comment> \<open>the two statements \<^verbatim>\<open>get_lesson\<close>, \<^verbatim>\<open>generate_quiz\<close> and \<^verbatim>\<open>submit_quiz\<close>
      share: 404 when \<^verbatim>\<open>len(curriculum["lessons"]) < lesson_number\<close>, else
      \<^verbatim>\<open>lesson_info = curriculum["lessons"][lesson_number - 1]\<close>\<close>
  "lookup_lesson cur lesson_number =
     and_then (dict_getitem cur ''lessons'') (\<lambda>lessons.
     and_then (py_len lessons) (\<lambda>n.
       if n < lesson_number then Inl (HTTPException 404 (LessonNotFound lesson_number))
       else py_index lessons (lesson_number - 1)))"

definition select_language ::
  "python \<Rightarrow> memory_storage \<Rightarrow> string \<Rightarrow> string \<Rightarrow> string \<Rightarrow> llm_outcome
     \<Rightarrow> (exn + pydict) \<times> memory_storage" where
  \<comment> \<open>\<open>timestamp\<close> is \<^verbatim>\<open>str(datetime.now().timestamp())\<close> and \<open>isoformat\<close> is
      \<^verbatim>\<open>datetime.now().isoformat()\<close>, both read from the clock\<close>
  "select_language py st lang timestamp isoformat llm =
     (let cur = generate_curriculum py lang llm;
          sid = ''session_'' @ timestamp;
          st' = st\<lparr>current_session := Some
                  \<lparr>session_id = sid, language = lang, curriculum = cur, current_lesson = 1,
                   completed_lessons = [], chat_history = [], created_at = isoformat\<rparr>\<rparr>
      in (except_500 ErrorCreatingCourse
            (and_then (py_len (dict_get cur ''lessons'' (JList []))) (\<lambda>total_lessons.
             and_then (py_slice3 (dict_get cur ''lessons'' (JList []))) (\<lambda>overview.
               Inr [(''message'', JStr (''The '' @ lang @ '' course was created'')),
                    (''session_id'', JStr sid),
                    (''language'', JStr lang),
                    (''current_lesson'', JInt 1),
                    (''total_lessons'', JInt total_lessons),
                    (''curriculum_overview'', overview)]))),
          st'))"

definition get_lesson :: "python \<Rightarrow> memory_storage \<Rightarrow> int \<Rightarrow> llm_outcome \<Rightarrow> exn + pydict" where
  \<comment> \<open>the handler writes nothing to the store\<close>
  "get_lesson py st lesson_number llm =
     except_500 ErrorFetchingLesson
       (case current_session st of
          None \<Rightarrow> Inl (HTTPException 404 NoActiveSession)
        | Some cs \<Rightarrow>
            if lesson_number > current_lesson cs then
              Inl (HTTPException 403 CompletePreviousLessons)
            else if curriculum cs = [] \<or> map_of (curriculum cs) ''lessons'' = None then
              Inl (HTTPException 500 CurriculumNotFound)
            else
              and_then (lookup_lesson (curriculum cs) lesson_number) (\<lambda>lesson_info.
                case lesson_info of
                  JObj info \<Rightarrow>
                    (let doc = generate_lesson_content py (language cs) lesson_number
                                 (dict_get info ''title'' (default_title lesson_number)) llm
                     in Inr [(''lesson_number'', JInt lesson_number),
                             (''title'', dict_get info ''title'' JNull),
                             (''description'', dict_get info ''description'' JNull),
                             (''objectives'', dict_get info ''objectives'' (JList [])),
                             (''content'', JObj doc),
                             (''language'', JStr (language cs))])
                | _ \<Rightarrow> Inl (PyError AttributeError)))"

definition generate_quiz ::
  "python \<Rightarrow> memory_storage \<Rightarrow> int \<Rightarrow> llm_outcome \<Rightarrow> (exn + pydict) \<times> memory_storage" where
  "generate_quiz py st lesson_number llm =
     (case current_session st of
        None \<Rightarrow> (Inl (HTTPException 404 NoActiveSession), st)
      | Some cs \<Rightarrow>
          if curriculum cs = [] \<or> map_of (curriculum cs) ''lessons'' = None then
            (Inl (HTTPException 500 CurriculumNotFound), st)
          else
            (case lookup_lesson (curriculum cs) lesson_number of
               Inl e \<Rightarrow> (except_500 ErrorGeneratingQuiz (Inl e), st)
             | Inr lesson_info \<Rightarrow>
                 (let cache_key = quiz_key (session_id cs) lesson_number in
                  case lesson_info of
                    JObj info \<Rightarrow>
                      (case quiz_cache st cache_key of
                         Some cached_quiz \<Rightarrow>
                           (Inr [(''lesson_number'', JInt lesson_number),
                                 (''lesson_title'', dict_get info ''title'' JNull),
                                 (''questions'', cached_quiz),
                                 (''cached'', JBool True)], st)
                       | None \<Rightarrow>
                           (let questions =
                                  generate_quiz_questions py (language cs) lesson_number
                                    (dict_get info ''title'' (default_title lesson_number)) llm
                            in (Inr [(''lesson_number'', JInt lesson_number),
                                     (''lesson_title'', dict_get info ''title'' JNull),
                                     (''questions'', questions),
                                     (''cached'', JBool False)],
                                st\<lparr>quiz_cache := (quiz_cache st)(cache_key \<mapsto> questions)\<rparr>)))
                  | _ \<Rightarrow> (except_500 ErrorGeneratingQuiz (Inl (PyError AttributeError)), st))))"

fun grade :: "json \<Rightarrow> int list \<Rightarrow> int \<Rightarrow> int \<Rightarrow> json list \<Rightarrow> exn + (int \<times> json list)" where
  \<comment> \<open>the \<^verbatim>\<open>for i, user_answer in enumerate(submission.answers)\<close> loop, from index
      \<open>i\<close> on, with the values of \<^verbatim>\<open>correct_count\<close> and \<^verbatim>\<open>results\<close> so far\<close>
  "grade questions [] i correct_count results = Inr (correct_count, results)"
| "grade questions (user_answer # rest) i correct_count results =
     (case py_len questions of
        Inl e \<Rightarrow> Inl e
      | Inr n \<Rightarrow>
          if i < n then
            (case py_index questions i of
               Inl e \<Rightarrow> Inl e
             | Inr q \<Rightarrow>
                 (case q of
                    JObj qd \<Rightarrow>
                      (let correct_answer = dict_get qd ''correct_answer'' (JInt 0);
                           is_correct = py_eq_int user_answer correct_answer
                       in grade questions rest (i + 1)
                            (if is_correct then correct_count + 1 else correct_count)
                            (results @
                               [JObj [(''question_number'', JInt (i + 1)),
                                      (''question_text'', dict_get qd ''question'' (JStr [])),
                                      (''user_answer'', JInt user_answer),
                                      (''correct_answer'', correct_answer),
                                      (''is_correct'', JBool is_correct),
                                      (''explanation'',
                                         dict_get qd ''explanation''
                                           (JStr ''No explanation available''))]]))
                  | _ \<Rightarrow> Inl (PyError AttributeError)))
          else grade questions rest (i + 1) correct_count results)"

definition update_progress :: "int \<Rightarrow> session \<Rightarrow> session" where
  \<comment> \<open>the body of \<^verbatim>\<open>if passed:\<close>\<close>
  "update_progress lesson_number cs =
     (let cs1 = (if lesson_number \<notin> set (completed_lessons cs)
                 then cs\<lparr>completed_lessons := completed_lessons cs @ [lesson_number]\<rparr>
                 else cs)
      in if lesson_number = current_lesson cs1 \<and> lesson_number < 14
         then cs1\<lparr>current_lesson := current_lesson cs1 + 1\<rparr>
         else cs1)"

text \<open>
  Python computes the score in binary floating point. \<open>round_double\<close> is the rounding of
  IEEE 754 double precision, to nearest with ties to even: a number with binary exponent
  \<open>k\<close> keeps 53 significant bits, so it is rounded to a multiple of \<open>2 powi (k - 52)\<close>, and
  below the normal range to a multiple of \<open>2 powi (- 1074)\<close>. Python's \<^verbatim>\<open>a / b\<close> on ints
  and its \<^verbatim>\<open>x * y\<close> on floats are the exact results rounded once. Magnitudes from
  \<open>2 powi 1024\<close> on, where Python overflows, do not occur: a score is at most 100.
\<close>

definition round_half_even :: "rat \<Rightarrow> int" where
  "round_half_even y =
     (let f = \<lfloor>y\<rfloor>; d = y - of_int f
      in if d < 1 / 2 then f else if 1 / 2 < d then f + 1 else if even f then f else f + 1)"

definition binary_exponent :: "rat \<Rightarrow> int" where
  \<comment> \<open>for \<open>0 < x\<close>, the \<open>k\<close> with \<open>2 powi k \<le> x < 2 powi (k + 1)\<close>\<close>
  "binary_exponent x =
     (let k = bitlen (fst (quotient_of x)) - bitlen (snd (quotient_of x))
      in if 2 powi k \<le> x then k else k - 1)"

definition round_double :: "rat \<Rightarrow> rat" where
  "round_double x =
     (if x = 0 then 0
      else let e = max (binary_exponent \<bar>x\<bar> - 52) (- 1074)
           in sgn x * of_int (round_half_even (\<bar>x\<bar> / 2 powi e)) * 2 powi e)"

definition float_div :: "int \<Rightarrow> int \<Rightarrow> rat" where
  \<comment> \<open>\<^verbatim>\<open>a / b\<close> on ints, \<open>b\<close> not 0\<close>
  "float_div a b = round_double (of_int a / of_int b)"

definition float_mul :: "rat \<Rightarrow> rat \<Rightarrow> rat" where
  \<comment> \<open>\<^verbatim>\<open>x * y\<close> on floats\<close>
  "float_mul x y = round_double (x * y)"

definition quiz_score :: "int \<Rightarrow> int \<Rightarrow> rat" where
  \<comment> \<open>\<^verbatim>\<open>(correct_count / len(questions)) * 100\<close>\<close>
  "quiz_score correct_count total_questions = float_mul (float_div correct_count total_questions) 100"

definition quiz_for_grading ::
  "python \<Rightarrow> memory_storage \<Rightarrow> session \<Rightarrow> int \<Rightarrow> json \<Rightarrow> llm_outcome
     \<Rightarrow> exn + (json \<times> memory_storage)" where
  \<comment> \<open>lines 644 to 658 of \<^verbatim>\<open>submit_quiz\<close>: the cached quiz, or a new one that is
      cached; the result is \<^verbatim>\<open>questions_data\<close> and the store\<close>
  "quiz_for_grading py st cs lesson_number lesson_info llm =
     (let cache_key = quiz_key (session_id cs) lesson_number in
      case quiz_cache st cache_key of
        Some cached \<Rightarrow> Inr (cached, st)
      | None \<Rightarrow>
          and_then (py_get lesson_info ''title'' (default_title lesson_number)) (\<lambda>lesson_title.
            let generated = generate_quiz_questions py (language cs) lesson_number lesson_title llm
            in Inr (generated, st\<lparr>quiz_cache := (quiz_cache st)(cache_key \<mapsto> generated)\<rparr>)))"

definition evaluate_answers :: "json \<Rightarrow> int list \<Rightarrow> exn + (int \<times> int \<times> json list)" where
  \<comment> \<open>lines 660 to 688 of \<^verbatim>\<open>submit_quiz\<close>: the result is \<^verbatim>\<open>correct_count\<close>,
      \<^verbatim>\<open>len(questions)\<close> and \<^verbatim>\<open>results\<close>\<close>
  "evaluate_answers questions_data answers =
     and_then (py_get questions_data ''questions'' (JList [])) (\<lambda>questions.
       if \<not> py_truthy questions then Inl (HTTPException 400 NoQuestionsFound)
       else
         and_then (grade questions answers 0 0 []) (\<lambda>(correct_count, results).
           if results = [] then Inl (HTTPException 400 NoValidAnswers)
           else
             and_then (py_len questions) (\<lambda>total_questions.
               if total_questions = 0 then Inl (PyError ZeroDivisionError)
               else Inr (correct_count, total_questions, results))))"

definition quiz_report :: "int \<Rightarrow> int \<Rightarrow> json list \<Rightarrow> int \<Rightarrow> bool \<Rightarrow> pydict" where
  \<comment> \<open>the dict \<^verbatim>\<open>submit_quiz\<close> returns; \<open>unlocked\<close> is \<^verbatim>\<open>current_lesson\<close> after the
      update, \<open>in_cache\<close> is \<^verbatim>\<open>cache_key in memory_storage["quiz_cache"]\<close>\<close>
  "quiz_report correct_count total_questions results unlocked in_cache =
     (let score = quiz_score correct_count total_questions;
          passed = (score \<ge> 70)
      in [(''score'', JFloat (Some score)),
          (''passed'', JBool passed),
          (''correct_answers'', JInt correct_count),
          (''total_questions'', JInt total_questions),
          (''results'', JList results),
          (''message'',
             JStr (if passed then ''Congratulations! You passed the quiz''
                   else ''Unfortunately you did not pass the quiz. Try again'')),
          (''next_lesson_available'', (if passed then JInt unlocked else JNull)),
          (''quiz_was_cached'', JBool in_cache)])"

definition submit_quiz ::
  "python \<Rightarrow> memory_storage \<Rightarrow> int \<Rightarrow> int list \<Rightarrow> llm_outcome
     \<Rightarrow> (exn + pydict) \<times> memory_storage" where
  "submit_quiz py st lesson_id answers llm =
     (case current_session st of
        None \<Rightarrow> (Inl (HTTPException 404 NoActiveSession), st)
      | Some cs \<Rightarrow>
          (let lesson_number = lesson_id in
           case lookup_lesson (curriculum cs) lesson_number of
             Inl e \<Rightarrow> (except_500 ErrorSubmittingQuiz (Inl e), st)
           | Inr lesson_info \<Rightarrow>
               (case quiz_for_grading py st cs lesson_number lesson_info llm of
                  Inl e \<Rightarrow> (except_500 ErrorSubmittingQuiz (Inl e), st)
                | Inr (questions_data, st1) \<Rightarrow>
                    (case evaluate_answers questions_data answers of
                       Inl e \<Rightarrow> (except_500 ErrorSubmittingQuiz (Inl e), st1)
                     | Inr (correct_count, total_questions, results) \<Rightarrow>
                         (let passed = (quiz_score correct_count total_questions \<ge> 70);
                              cs' = (if passed then update_progress lesson_number cs else cs);
                              st2 = st1\<lparr>current_session := Some cs'\<rparr>
                          in (Inr (quiz_report correct_count total_questions results
                                     (current_lesson cs')
                                     (quiz_cache st2 (quiz_key (session_id cs) lesson_number)
                                        \<noteq> None)),
                              st2))))))"

definition generate_coding_challenge_endpoint ::
  "python \<Rightarrow> memory_storage \<Rightarrow> int \<Rightarrow> string \<Rightarrow> llm_outcome
     \<Rightarrow> (exn + pydict) \<times> memory_storage" where
  \<comment> \<open>\<open>timestamp\<close> and \<open>isoformat\<close> are read from the clock\<close>
  "generate_coding_challenge_endpoint py st timestamp isoformat llm =
     (case current_session st of
        None \<Rightarrow> (Inl (HTTPException 404 NoActiveSession), st)
      | Some cs \<Rightarrow>
          (let completed = int (length (completed_lessons cs)) in
           if completed < 4 then
             (Inl (HTTPException 400 (ChallengesNeedFourLessons completed)), st)
           else
             (let challenge_milestone = (completed div 4) * 4;
                  existing_challenge_key = challenge_key (session_id cs) challenge_milestone
              in case coding_quizzes st existing_challenge_key of
                   Some entry \<Rightarrow>
                     (Inr [(''challenge'', JObj (challenge_data entry)),
                           (''message'',
                              JStr (''Found an earlier coding challenge after completing ''
                                    @ str_int challenge_milestone @ '' lessons'')),
                           (''is_cached'', JBool True)], st)
                 | None \<Rightarrow>
                     (let challenge =
                            generate_coding_challenge py (language cs) challenge_milestone
                              timestamp llm
                      in (Inr [(''challenge'', JObj challenge),
                               (''message'',
                                  JStr (''Created a new coding challenge after completing ''
                                        @ str_int challenge_milestone @ '' lessons'')),
                               (''is_cached'', JBool False)],
                          st\<lparr>coding_quizzes := (coding_quizzes st)
                               (existing_challenge_key \<mapsto>
                                  \<lparr>challenge_data = challenge,
                                   stored_session_id = session_id cs,
                                   stored_created_at = isoformat\<rparr>)\<rparr>)))))"

definition submit_code ::
  "python \<Rightarrow> memory_storage \<Rightarrow> string \<Rightarrow> string \<Rightarrow> llm_outcome \<Rightarrow> exn + pydict" where
  \<comment> \<open>the handler writes nothing to the store\<close>
  "submit_code py st submitted challenge_id llm =
     (case current_session st of
        None \<Rightarrow> Inl (HTTPException 404 NoActiveSession)
      | Some cs \<Rightarrow>
          (case coding_quizzes st challenge_id of
             None \<Rightarrow> Inl (HTTPException 404 ChallengeNotFound)
           | Some entry \<Rightarrow>
               (let evaluation =
                      evaluate_code py (language cs) submitted challenge_id
                        (challenge_data entry) llm
                in Inr [(''evaluation'', evaluation),
                        (''challenge_id'', JStr challenge_id),
                        (''challenge_title'', dict_get (challenge_data entry) ''title'' (JStr []))])))"

text \<open>
  The requests a client can send within one session, each with what the clock and the
  language model do while it is served, and the store a sequence of them leaves behind.
\<close>

datatype request =
    GetLesson int llm_outcome
  | GenerateQuiz int llm_outcome
  | SubmitQuiz int "int list" llm_outcome
  | GenerateChallenge int string llm_outcome
  | SubmitCode string string llm_outcome

fun serve :: "python \<Rightarrow> memory_storage \<Rightarrow> request \<Rightarrow> memory_storage" where
  "serve py st (GetLesson n llm) = st"
| "serve py st (GenerateQuiz n llm) = snd (generate_quiz py st n llm)"
| "serve py st (SubmitQuiz n answers llm) = snd (submit_quiz py st n answers llm)"
| "serve py st (GenerateChallenge timestamp isoformat llm) =
     snd (generate_coding_challenge_endpoint py st timestamp isoformat llm)"
| "serve py st (SubmitCode submitted challenge_id llm) = st"

definition serve_all :: "python \<Rightarrow> memory_storage \<Rightarrow> request list \<Rightarrow> memory_storage" where
  "serve_all py st reqs = foldl (serve py) st reqs"


definition lesson_of :: "memory_storage \<Rightarrow> int" where
  \<comment> \<open>\<^verbatim>\<open>current_lesson\<close> of the session in the store\<close>
  "lesson_of st = (case current_session st of None \<Rightarrow> 0 | Some cs \<Rightarrow> current_lesson cs)"

text \<open>
  The grading rule in the spec's words: an answer matches a question when it equals the
  question's \<^verbatim>\<open>correct_answer\<close> (0 when the question has none), and the answers are
  compared with the questions position by position, as far as the shorter of the two lists
  goes.
\<close>

definition is_object :: "json \<Rightarrow> bool" where
  "is_object v = (case v of JObj d \<Rightarrow> True | _ \<Rightarrow> False)"

definition answer_matches :: "int \<Rightarrow> json \<Rightarrow> bool" where
  "answer_matches a q =
     (case q of JObj qd \<Rightarrow> py_eq_int a (dict_get qd ''correct_answer'' (JInt 0)) | _ \<Rightarrow> False)"

definition matching_answers :: "int list \<Rightarrow> json list \<Rightarrow> int" where
  "matching_answers answers qs =
     int (length (filter (\<lambda>(a, q). answer_matches a q) (zip answers qs)))"

section \<open>Example data\<close>

text \<open>
  A store for the concrete runs below: a session whose curriculum has four lessons, with a
  cached quiz of five questions for lesson 1. \<open>example_python\<close> decodes the empty JSON
  object and renders a text, an int, a truth value and \<^verbatim>\<open>None\<close> as Python does; the
  runs apply it to nothing else.
\<close>

definition example_python :: python where
  "example_python =
     \<lparr>json_loads = [''{}'' \<mapsto> JObj []],
      str_of = (\<lambda>v. case v of
                   JStr s \<Rightarrow> s
                 | JInt i \<Rightarrow> str_int i
                 | JBool b \<Rightarrow> (if b then ''True'' else ''False'')
                 | JNull \<Rightarrow> ''None''
                 | _ \<Rightarrow> [])\<rparr>"

definition example_curriculum :: pydict where
  "example_curriculum =
     [(''language'', JStr ''Python''),
      (''lessons'',
         JList [JObj [(''lesson_number'', JInt 1), (''title'', JStr ''Basics'')],
                JObj [(''lesson_number'', JInt 2), (''title'', JStr ''Variables'')],
                JObj [(''lesson_number'', JInt 3), (''title'', JStr ''Control flow'')],
                JObj [(''lesson_number'', JInt 4), (''title'', JStr ''Functions'')]])]"

definition example_session :: session where
  "example_session =
     \<lparr>session_id = ''session_1700000000.5'', language = ''Python'',
      curriculum = example_curriculum, current_lesson = 1, completed_lessons = [],
      chat_history = [], created_at = ''2023-11-14T22:13:20.500000''\<rparr>"

definition example_question :: "int \<Rightarrow> json" where
  "example_question answer =
     JObj [(''question'', JStr ''Which one?''),
           (''options'', JList [JStr ''a'', JStr ''b'', JStr ''c'', JStr ''d'']),
           (''correct_answer'', JInt answer),
           (''explanation'', JStr ''Because'')]"

definition example_quiz :: json where
  "example_quiz = JObj [(''questions'', JList (map example_question [0, 1, 2, 3, 0]))]"

definition example_store :: memory_storage where
  "example_store =
     \<lparr>current_session = Some example_session,
      quiz_cache = [''session_1700000000.5_lesson_1'' \<mapsto> example_quiz],
      coding_quizzes = Map.empty\<rparr>"

section \<open>Evaluating the model on concrete requests\<close>

lemmas python_ops =
  and_then_def try_except_def except_500_def dict_get_def py_get_def dict_getitem_def
  py_len_def py_index_def py_slice3_def py_truthy_def py_eq_int_def str_int_def str_nat.simps

lemmas generators =
  ainvoke_def loads_or_raise_def parse_response_def generate_quiz_questions_def
  generate_coding_challenge_def evaluate_code_def generate_lesson_content_def
  fallback_quiz_def fallback_challenge_def default_challenge_id_def fallback_evaluation_def

lemma quiz_score_examples:
  "quiz_score 4 5 = 80"
  "quiz_score 5 5 = 100"
  "quiz_score 1 1 = 100"
  "quiz_score 0 1 = 0"
  "quiz_score 7 10 = 70"
  "quiz_score 1 3 = 2345624805922133 / 70368744177664"
  "quiz_score 7 25 = 7881299347898369 / 281474976710656"
  by code_simp+

lemmas handlers =
  get_lesson_def generate_quiz_def submit_quiz_def generate_coding_challenge_endpoint_def
  submit_code_def lookup_lesson_def quiz_for_grading_def evaluate_answers_def
  quiz_report_def quiz_key_def challenge_key_def default_title_def update_progress_def
  quiz_score_examples Let_def

lemmas examples =
  example_python_def example_curriculum_def example_session_def example_question_def
  example_quiz_def example_store_def

section \<open>What a quiz submission does to the store\<close>

lemma quiz_for_grading_store:
  assumes "quiz_for_grading py st cs n lesson_info llm = Inr (q, st1)"
  shows "current_session st1 = current_session st \<and>
         coding_quizzes st1 = coding_quizzes st \<and>
         quiz_cache st1 (quiz_key (session_id cs) n) = Some q \<and>
         (quiz_cache st (quiz_key (session_id cs) n) = Some q \<and> st1 = st \<or>
          quiz_cache st (quiz_key (session_id cs) n) = None \<and>
          quiz_cache st1 = (quiz_cache st)(quiz_key (session_id cs) n \<mapsto> q))"
  using assms
  unfolding quiz_for_grading_def Let_def and_then_def
  by (auto split: option.splits sum.splits)

lemma quiz_for_grading_cached:
  "quiz_cache st (quiz_key (session_id cs) n) = Some q \<Longrightarrow>
   quiz_for_grading py st cs n lesson_info llm = Inr (q, st)"
  by (simp add: quiz_for_grading_def)

lemma submit_quiz_Inr:
  assumes "current_session st = Some cs"
    and "submit_quiz py st n answers llm = (Inr doc, st')"
  obtains lesson_info q st1 correct_count total_questions results where
    "lookup_lesson (curriculum cs) n = Inr lesson_info"
    and "quiz_for_grading py st cs n lesson_info llm = Inr (q, st1)"
    and "evaluate_answers q answers = Inr (correct_count, total_questions, results)"
    and "st' = st1\<lparr>current_session := Some
            (if quiz_score correct_count total_questions \<ge> 70 then update_progress n cs else cs)\<rparr>"
    and "doc = quiz_report correct_count total_questions results
            (current_lesson
               (if quiz_score correct_count total_questions \<ge> 70 then update_progress n cs else cs))
            True"
proof -
  from assms obtain lesson_info where l: "lookup_lesson (curriculum cs) n = Inr lesson_info"
    unfolding submit_quiz_def Let_def except_500_def
    by (auto split: sum.splits exn.splits)
  from assms l obtain q st1 where g: "quiz_for_grading py st cs n lesson_info llm = Inr (q, st1)"
    unfolding submit_quiz_def Let_def except_500_def
    by (auto split: sum.splits exn.splits)
  from assms l g obtain correct_count total_questions results
    where e: "evaluate_answers q answers = Inr (correct_count, total_questions, results)"
    unfolding submit_quiz_def Let_def except_500_def
    by (auto split: sum.splits exn.splits)
  have c: "quiz_cache st1 (quiz_key (session_id cs) n) \<noteq> None"
    using quiz_for_grading_store [OF g] by simp
  from assms l g e c have
    "st' = st1\<lparr>current_session := Some
        (if quiz_score correct_count total_questions \<ge> 70 then update_progress n cs else cs)\<rparr>"
    and "doc = quiz_report correct_count total_questions results
        (current_lesson
           (if quiz_score correct_count total_questions \<ge> 70 then update_progress n cs else cs))
        True"
    unfolding submit_quiz_def Let_def by auto
  with l g e show thesis by (rule that)
qed

lemma submit_quiz_store:
  assumes "current_session st = Some cs"
  shows "coding_quizzes (snd (submit_quiz py st n answers llm)) = coding_quizzes st \<and>
      (\<exists>cs'. current_session (snd (submit_quiz py st n answers llm)) = Some cs' \<and>
         (cs' = cs \<or> cs' = update_progress n cs)) \<and>
      (quiz_cache (snd (submit_quiz py st n answers llm)) = quiz_cache st \<or>
       quiz_cache st (quiz_key (session_id cs) n) = None \<and>
       (\<exists>q. quiz_cache (snd (submit_quiz py st n answers llm))
            = (quiz_cache st)(quiz_key (session_id cs) n \<mapsto> q)))"
proof (cases "lookup_lesson (curriculum cs) n")
  case (Inl e)
  then have "snd (submit_quiz py st n answers llm) = st"
    using assms by (simp add: submit_quiz_def)
  with assms show ?thesis by simp
next
  case l: (Inr lesson_info)
  show ?thesis
  proof (cases "quiz_for_grading py st cs n lesson_info llm")
    case (Inl e)
    then have "snd (submit_quiz py st n answers llm) = st"
      using assms l by (simp add: submit_quiz_def)
    with assms show ?thesis by simp
  next
    case (Inr p)
    then obtain q st1 where g: "quiz_for_grading py st cs n lesson_info llm = Inr (q, st1)"
      by (cases p) auto
    note s = quiz_for_grading_store [OF g]
    have "\<exists>cs'. snd (submit_quiz py st n answers llm) = st1\<lparr>current_session := Some cs'\<rparr> \<and>
        (cs' = cs \<or> cs' = update_progress n cs)"
    proof (cases "evaluate_answers q answers")
      case (Inl e)
      then have "snd (submit_quiz py st n answers llm) = st1"
        using assms l g by (simp add: submit_quiz_def)
      moreover have "st1 = st1\<lparr>current_session := Some cs\<rparr>"
        using s assms by simp
      ultimately show ?thesis by metis
    next
      case (Inr r)
      then obtain c t rs where "evaluate_answers q answers = Inr (c, t, rs)"
        by (cases r) auto
      then show ?thesis
        using assms l g by (auto simp: submit_quiz_def Let_def)
    qed
    then obtain cs' where
      r: "snd (submit_quiz py st n answers llm) = st1\<lparr>current_session := Some cs'\<rparr>"
      and cs': "cs' = cs \<or> cs' = update_progress n cs" by blast
    have "coding_quizzes (st1\<lparr>current_session := Some cs'\<rparr>) = coding_quizzes st"
      and "current_session (st1\<lparr>current_session := Some cs'\<rparr>) = Some cs'"
      and "quiz_cache (st1\<lparr>current_session := Some cs'\<rparr>) = quiz_cache st1"
      using s by simp_all
    moreover have "quiz_cache st1 = quiz_cache st \<or>
        quiz_cache st (quiz_key (session_id cs) n) = None \<and>
        (\<exists>q. quiz_cache st1 = (quiz_cache st)(quiz_key (session_id cs) n \<mapsto> q))"
      using s by auto
    ultimately show ?thesis unfolding r using cs' by simp
  qed
qed

section \<open>Progress after a passed quiz\<close>

lemma update_progress_completed:
  "completed_lessons (update_progress n cs) =
     (if n \<in> set (completed_lessons cs) then completed_lessons cs else completed_lessons cs @ [n])"
  by (simp add: update_progress_def Let_def)

lemma update_progress_current:
  "current_lesson (update_progress n cs) =
     (if n = current_lesson cs \<and> n < 14 then current_lesson cs + 1 else current_lesson cs)"
  by (simp add: update_progress_def Let_def)


lemma quiz_report_passed:
  "map_of (quiz_report c t rs unlocked in_cache) ''passed'' = Some (JBool (quiz_score c t \<ge> 70))"
  by (simp add: quiz_report_def Let_def)

lemma passed_session:
  assumes "current_session st = Some cs"
    and "submit_quiz py st n answers llm = (Inr doc, st')"
    and "map_of doc ''passed'' = Some (JBool True)"
  shows "current_session st' = Some (update_progress n cs)"
proof -
  from assms(1,2) obtain lesson_info q st1 c t rs where
    st': "st' = st1\<lparr>current_session := Some
            (if quiz_score c t \<ge> 70 then update_progress n cs else cs)\<rparr>"
    and doc: "doc = quiz_report c t rs
            (current_lesson (if quiz_score c t \<ge> 70 then update_progress n cs else cs)) True"
    by (rule submit_quiz_Inr)
  from doc assms(3) have "quiz_score c t \<ge> 70"
    by (simp add: quiz_report_passed)
  with st' show ?thesis by simp
qed

text \<open>
  Claim C3. When a submission for lesson \<open>n\<close> passes, \<open>n\<close> is appended to
  \<^verbatim>\<open>completed_lessons\<close> only if it is not there yet, and \<^verbatim>\<open>current_lesson\<close> grows by
  one exactly when \<open>n\<close> is the current lesson and \<open>n < 14\<close>; so passing a completed lesson
  that is not the current one leaves \<^verbatim>\<open>current_lesson\<close> alone, \<open>n\<close> occurs once if it was
  new, and a second passing submission for \<open>n\<close> changes neither field.
\<close>

theorem passed_quiz_progress:
  assumes "current_session st = Some cs"
    and "submit_quiz py st n answers llm = (Inr doc, st')"
    and "map_of doc ''passed'' = Some (JBool True)"
  shows "\<exists>cs'. current_session st' = Some cs' \<and>
      completed_lessons cs' =
        (if n \<in> set (completed_lessons cs) then completed_lessons cs
         else completed_lessons cs @ [n]) \<and>
      count_list (completed_lessons cs') n = max 1 (count_list (completed_lessons cs) n) \<and>
      current_lesson cs' =
        (if n = current_lesson cs \<and> n < 14 then current_lesson cs + 1 else current_lesson cs) \<and>
      (\<forall>answers2 llm2 doc2 st2.
         submit_quiz py st' n answers2 llm2 = (Inr doc2, st2) \<and>
         map_of doc2 ''passed'' = Some (JBool True) \<longrightarrow>
         (\<exists>cs2. current_session st2 = Some cs2 \<and>
            completed_lessons cs2 = completed_lessons cs' \<and>
            current_lesson cs2 = current_lesson cs'))"
proof -
  let ?cs' = "update_progress n cs"
  have s: "current_session st' = Some ?cs'"
    by (rule passed_session [OF assms])
  have cnt: "count_list (completed_lessons ?cs') n = max 1 (count_list (completed_lessons cs) n)"
  proof (cases "n \<in> set (completed_lessons cs)")
    case True
    then have "0 < count_list (completed_lessons cs) n"
      using count_list_0_iff [of "completed_lessons cs" n] by auto
    with True show ?thesis by (simp add: update_progress_completed)
  next
    case False
    then have "count_list (completed_lessons cs) n = 0"
      by (simp add: count_list_0_iff)
    with False show ?thesis by (simp add: update_progress_completed)
  qed
  have again: "\<exists>cs2. current_session st2 = Some cs2 \<and>
        completed_lessons cs2 = completed_lessons ?cs' \<and>
        current_lesson cs2 = current_lesson ?cs'"
    if "submit_quiz py st' n answers2 llm2 = (Inr doc2, st2)"
      and "map_of doc2 ''passed'' = Some (JBool True)" for answers2 llm2 doc2 st2
  proof -
    have "current_session st2 = Some (update_progress n ?cs')"
      by (rule passed_session [OF s that])
    moreover have "completed_lessons (update_progress n ?cs') = completed_lessons ?cs'"
      by (simp add: update_progress_completed)
    moreover have "current_lesson (update_progress n ?cs') = current_lesson ?cs'"
      by (simp add: update_progress_current)
    ultimately show ?thesis by simp
  qed
  show ?thesis
  proof (rule exI [of _ ?cs'], intro conjI allI impI)
    show "current_session st' = Some ?cs'" by (rule s)
    show "completed_lessons ?cs' =
        (if n \<in> set (completed_lessons cs) then completed_lessons cs
         else completed_lessons cs @ [n])"
      by (rule update_progress_completed)
    show "count_list (completed_lessons ?cs') n = max 1 (count_list (completed_lessons cs) n)"
      by (rule cnt)
    show "current_lesson ?cs' =
        (if n = current_lesson cs \<and> n < 14 then current_lesson cs + 1 else current_lesson cs)"
      by (rule update_progress_current)
  next
    fix answers2 llm2 doc2 st2
    assume "submit_quiz py st' n answers2 llm2 = (Inr doc2, st2) \<and>
        map_of doc2 ''passed'' = Some (JBool True)"
    then show "\<exists>cs2. current_session st2 = Some cs2 \<and>
        completed_lessons cs2 = completed_lessons ?cs' \<and>
        current_lesson cs2 = current_lesson ?cs'"
      using again by blast
  qed
qed

theorem passed_quiz_progress_witness:
  "current_session example_store = Some example_session \<and>
   (\<exists>doc st'. submit_quiz example_python example_store 1 [0, 1, 2, 3, 1] LLMRaises = (Inr doc, st') \<and>
      map_of doc ''passed'' = Some (JBool True) \<and>
      (\<exists>cs'. current_session st' = Some cs' \<and> completed_lessons cs' = [1] \<and>
         current_lesson cs' = 2 \<and>
         (\<exists>doc2 st2. submit_quiz example_python st' 1 [0, 1, 2, 3, 0] LLMRaises = (Inr doc2, st2) \<and>
            map_of doc2 ''passed'' = Some (JBool True) \<and>
            (\<exists>cs2. current_session st2 = Some cs2 \<and> completed_lessons cs2 = [1] \<and>
               current_lesson cs2 = 2))))"
proof -
  have a: "current_session example_store = Some example_session"
    by (simp add: example_store_def)
  obtain doc st' where
    r: "submit_quiz example_python example_store 1 [0, 1, 2, 3, 1] LLMRaises = (Inr doc, st')"
    and p: "map_of doc ''passed'' = Some (JBool True)"
    by (simp add: handlers python_ops examples)
  from passed_quiz_progress [OF a r p] obtain cs' where
    s: "current_session st' = Some cs'"
    and c: "completed_lessons cs' = [1]" "current_lesson cs' = 2"
    and again: "\<And>answers2 llm2 doc2 st2.
       submit_quiz example_python st' 1 answers2 llm2 = (Inr doc2, st2) \<Longrightarrow>
       map_of doc2 ''passed'' = Some (JBool True) \<Longrightarrow>
       \<exists>cs2. current_session st2 = Some cs2 \<and> completed_lessons cs2 = completed_lessons cs' \<and>
         current_lesson cs2 = current_lesson cs'"
    by (auto simp: example_session_def)
  have st': "st' = snd (submit_quiz example_python example_store 1 [0, 1, 2, 3, 1] LLMRaises)"
    using r by simp
  obtain doc2 st2 where
    r2: "submit_quiz example_python st' 1 [0, 1, 2, 3, 0] LLMRaises = (Inr doc2, st2)"
    and p2: "map_of doc2 ''passed'' = Some (JBool True)"
    unfolding st' by (simp add: handlers python_ops examples)
  from again [OF r2 p2] c have
    "\<exists>cs2. current_session st2 = Some cs2 \<and> completed_lessons cs2 = [1] \<and> current_lesson cs2 = 2"
    by simp
  with a r p s c r2 p2 show ?thesis by blast
qed

section \<open>The store across the requests of a session\<close>

lemma generate_quiz_store:
  assumes "current_session st = Some cs"
  shows "current_session (snd (generate_quiz py st n llm)) = Some cs \<and>
      coding_quizzes (snd (generate_quiz py st n llm)) = coding_quizzes st \<and>
      (quiz_cache (snd (generate_quiz py st n llm)) = quiz_cache st \<or>
       quiz_cache st (quiz_key (session_id cs) n) = None \<and>
       (\<exists>q. quiz_cache (snd (generate_quiz py st n llm))
            = (quiz_cache st)(quiz_key (session_id cs) n \<mapsto> q)))"
  using assms
  unfolding generate_quiz_def Let_def
  by (auto split: sum.splits option.splits json.splits)

lemma challenge_endpoint_store:
  "current_session (snd (generate_coding_challenge_endpoint py st timestamp isoformat llm))
     = current_session st \<and>
   quiz_cache (snd (generate_coding_challenge_endpoint py st timestamp isoformat llm))
     = quiz_cache st"
  unfolding generate_coding_challenge_endpoint_def Let_def
  by (auto split: option.splits)

lemma serve_session:
  assumes "current_session st = Some cs"
  shows "\<exists>cs'. current_session (serve py st req) = Some cs' \<and>
      (cs' = cs \<or> (\<exists>n. cs' = update_progress n cs))"
proof (cases req)
  case (GetLesson n llm)
  then show ?thesis using assms by simp
next
  case (GenerateQuiz n llm)
  then show ?thesis using generate_quiz_store [OF assms] by simp
next
  case (SubmitQuiz n answers llm)
  then show ?thesis using submit_quiz_store [OF assms, of py n answers llm] by auto
next
  case (GenerateChallenge timestamp isoformat llm)
  then show ?thesis using assms challenge_endpoint_store [of py st timestamp isoformat llm] by simp
next
  case (SubmitCode submitted challenge_id llm)
  then show ?thesis using assms by simp
qed

lemma serve_lesson:
  assumes "current_session st = Some cs"
  shows "\<exists>cs'. current_session (serve py st req) = Some cs' \<and>
      current_lesson cs \<le> current_lesson cs' \<and>
      (current_lesson cs \<le> 14 \<longrightarrow> current_lesson cs' \<le> 14)"
proof -
  from serve_session [OF assms] obtain cs' where
    s: "current_session (serve py st req) = Some cs'"
    and c: "cs' = cs \<or> (\<exists>n. cs' = update_progress n cs)" by blast
  from c have "current_lesson cs \<le> current_lesson cs' \<and>
      (current_lesson cs \<le> 14 \<longrightarrow> current_lesson cs' \<le> 14)"
    by (auto simp: update_progress_current)
  with s show ?thesis by blast
qed

lemma serve_all_Cons: "serve_all py st (req # reqs) = serve_all py (serve py st req) reqs"
  by (simp add: serve_all_def)

lemma serve_all_append:
  "serve_all py st (reqs @ later) = serve_all py (serve_all py st reqs) later"
  by (simp add: serve_all_def)

lemma serve_all_lesson:
  assumes "current_session st = Some cs"
  shows "\<exists>cs'. current_session (serve_all py st reqs) = Some cs' \<and>
      current_lesson cs \<le> current_lesson cs' \<and>
      (current_lesson cs \<le> 14 \<longrightarrow> current_lesson cs' \<le> 14)"
  using assms
proof (induction reqs arbitrary: st cs)
  case Nil
  then show ?case by (simp add: serve_all_def)
next
  case (Cons req reqs)
  from serve_lesson [OF Cons.prems, of py req] obtain cs1 where
    s1: "current_session (serve py st req) = Some cs1"
    and m1: "current_lesson cs \<le> current_lesson cs1"
    and b1: "current_lesson cs \<le> 14 \<longrightarrow> current_lesson cs1 \<le> 14" by blast
  from Cons.IH [OF s1] obtain cs' where
    "current_session (serve_all py (serve py st req) reqs) = Some cs'"
    and "current_lesson cs1 \<le> current_lesson cs'"
    and "current_lesson cs1 \<le> 14 \<longrightarrow> current_lesson cs' \<le> 14" by blast
  with m1 b1 show ?case unfolding serve_all_Cons by force
qed

lemma select_language_session:
  "\<exists>cs. current_session (snd (select_language py st lang timestamp isoformat llm)) = Some cs \<and>
     current_lesson cs = 1 \<and> completed_lessons cs = []"
  by (simp add: select_language_def Let_def)

text \<open>
  Claim C4. A session starts with \<^verbatim>\<open>current_lesson = 1\<close>. Over every sequence of
  requests served in that session (quiz submissions, and the other requests as well),
  \<^verbatim>\<open>current_lesson\<close> never decreases: after any further requests it is at least what it
  was; and it never exceeds 14.
\<close>

theorem current_lesson_monotone:
  "lesson_of (snd (select_language py st lang timestamp isoformat llm)) = 1 \<and>
   lesson_of (serve_all py (snd (select_language py st lang timestamp isoformat llm)) reqs)
     \<le> lesson_of (serve_all py (snd (select_language py st lang timestamp isoformat llm))
          (reqs @ later)) \<and>
   lesson_of (serve_all py (snd (select_language py st lang timestamp isoformat llm)) reqs) \<le> 14"
proof -
  let ?st0 = "snd (select_language py st lang timestamp isoformat llm)"
  from select_language_session obtain cs0 where
    s0: "current_session ?st0 = Some cs0" and l0: "current_lesson cs0 = 1" by blast
  from serve_all_lesson [OF s0, of py reqs] l0 obtain cs1 where
    s1: "current_session (serve_all py ?st0 reqs) = Some cs1"
    and b1: "current_lesson cs1 \<le> 14" by auto
  from serve_all_lesson [OF s1, of py later] obtain cs2 where
    s2: "current_session (serve_all py (serve_all py ?st0 reqs) later) = Some cs2"
    and m2: "current_lesson cs1 \<le> current_lesson cs2" by blast
  show ?thesis
    using s0 l0 s1 b1 s2 m2 by (simp add: lesson_of_def serve_all_append)
qed

theorem current_lesson_monotone_witness:
  "lesson_of (serve_all example_python example_store [SubmitQuiz 1 [0, 1, 2, 3, 1] LLMRaises]) = 2 \<and>
   lesson_of (snd (select_language example_python example_store ''Python'' ''1700000000.5''
      ''2023-11-14T22:13:20.500000'' LLMRaises)) = 1 \<and>
   lesson_of (serve_all example_python
      (snd (select_language example_python example_store ''Python'' ''1700000000.5''
         ''2023-11-14T22:13:20.500000'' LLMRaises))
      [SubmitQuiz 1 [0] LLMRaises, SubmitQuiz 1 [3] LLMRaises]) \<le> 14"
proof -
  have "lesson_of (serve_all example_python example_store [SubmitQuiz 1 [0, 1, 2, 3, 1] LLMRaises]) = 2"
    by (simp add: serve_all_def lesson_of_def handlers python_ops examples)
  then show ?thesis
    using current_lesson_monotone [of example_python example_store "''Python''" "''1700000000.5''"
        "''2023-11-14T22:13:20.500000''" LLMRaises
        "[SubmitQuiz 1 [0] LLMRaises, SubmitQuiz 1 [3] LLMRaises]" "[]"]
    by simp
qed

section \<open>The quiz cache\<close>

lemma generate_quiz_Inr:
  assumes "generate_quiz py st n llm = (Inr doc, st1)"
  obtains cs info q cached where
    "current_session st = Some cs"
    and "\<not> (curriculum cs = [] \<or> map_of (curriculum cs) ''lessons'' = None)"
    and "lookup_lesson (curriculum cs) n = Inr (JObj info)"
    and "doc = [(''lesson_number'', JInt n), (''lesson_title'', dict_get info ''title'' JNull),
                (''questions'', q), (''cached'', JBool cached)]"
    and "current_session st1 = Some cs"
    and "quiz_cache st1 (quiz_key (session_id cs) n) = Some q"
proof -
  from assms obtain cs where cs: "current_session st = Some cs"
    unfolding generate_quiz_def by (auto split: option.splits)
  from assms cs have cur: "\<not> (curriculum cs = [] \<or> map_of (curriculum cs) ''lessons'' = None)"
    unfolding generate_quiz_def by (auto split: if_splits)
  from assms cs cur obtain info where l: "lookup_lesson (curriculum cs) n = Inr (JObj info)"
    unfolding generate_quiz_def Let_def except_500_def
    by (auto split: sum.splits exn.splits json.splits)
  show thesis
  proof (cases "quiz_cache st (quiz_key (session_id cs) n)")
    case None
    with assms cs cur l show ?thesis
      unfolding generate_quiz_def Let_def by (intro that [of cs info]) auto
  next
    case (Some q)
    with assms cs cur l show ?thesis
      unfolding generate_quiz_def Let_def by (intro that [of cs info]) auto
  qed
qed


lemma submit_quiz_hit:
  assumes "current_session st = Some cs"
    and "lookup_lesson (curriculum cs) n = Inr lesson_info"
    and "quiz_cache st (quiz_key (session_id cs) n) = Some q"
  shows "submit_quiz py st n answers llm =
      (case evaluate_answers q answers of
         Inl e \<Rightarrow> (except_500 ErrorSubmittingQuiz (Inl e), st)
       | Inr (correct_count, total_questions, results) \<Rightarrow>
           (Inr (quiz_report correct_count total_questions results
                   (current_lesson (if quiz_score correct_count total_questions \<ge> 70
                                    then update_progress n cs else cs)) True),
            st\<lparr>current_session := Some (if quiz_score correct_count total_questions \<ge> 70
                                          then update_progress n cs else cs)\<rparr>))"
  using assms quiz_for_grading_cached [OF assms(3), of py lesson_info llm]
  unfolding submit_quiz_def Let_def
  by (auto split: sum.splits prod.splits)













section \<open>The challenge milestone\<close>



section \<open>The Response Extractor returns the embedded object\<close>











lemma brace_free_subset: "brace_free p \<Longrightarrow> set q \<subseteq> set p \<Longrightarrow> brace_free q"
  by (auto simp: brace_free_def)











section \<open>Grading\<close>

lemma matching_answers_Nil: "matching_answers [] qs = 0" "matching_answers answers [] = 0"
  by (simp_all add: matching_answers_def)

lemma matching_answers_Cons:
  "matching_answers (a # answers) (q # qs) =
     (if answer_matches a q then 1 else 0) + matching_answers answers qs"
  by (simp add: matching_answers_def)

lemma grade_counts:
  assumes "\<forall>q \<in> set (take (length answers) (drop i qs)). is_object q"
  shows "\<exists>rs'. grade (JList qs) answers (int i) c rs
           = Inr (c + matching_answers answers (drop i qs), rs @ rs') \<and>
         length rs' = min (length answers) (length qs - i)"
  using assms
proof (induction answers arbitrary: i c rs)
  case Nil
  then show ?case by (simp add: matching_answers_Nil)
next
  case (Cons a answers)
  have len: "py_len (JList qs) = Inr (int (length qs))"
    by (simp add: py_len_def)
  show ?case
  proof (cases "i < length qs")
    case True
    then have d: "drop i qs = qs ! i # drop (Suc i) qs"
      by (simp add: Cons_nth_drop_Suc)
    from Cons.prems d have obj: "is_object (qs ! i)"
      and rest: "\<forall>q \<in> set (take (length answers) (drop (Suc i) qs)). is_object q"
      by simp_all
    from obj obtain qd where q: "qs ! i = JObj qd"
      by (auto simp: is_object_def split: json.splits)
    have idx: "py_index (JList qs) (int i) = Inr (JObj qd)"
      using True q by (simp add: py_index_def Let_def)
    define c' where "c' = (if py_eq_int a (dict_get qd ''correct_answer'' (JInt 0)) then c + 1 else c)"
    define r where "r = JObj [(''question_number'', JInt (int i + 1)),
        (''question_text'', dict_get qd ''question'' (JStr [])),
        (''user_answer'', JInt a),
        (''correct_answer'', dict_get qd ''correct_answer'' (JInt 0)),
        (''is_correct'', JBool (py_eq_int a (dict_get qd ''correct_answer'' (JInt 0)))),
        (''explanation'', dict_get qd ''explanation'' (JStr ''No explanation available''))]"
    have step: "grade (JList qs) (a # answers) (int i) c rs
        = grade (JList qs) answers (int (Suc i)) c' (rs @ [r])"
      using True len idx by (simp add: Let_def c'_def r_def add.commute)
    from Cons.IH [OF rest, of c' "rs @ [r]"] obtain rs' where
      g: "grade (JList qs) answers (int (Suc i)) c' (rs @ [r])
          = Inr (c' + matching_answers answers (drop (Suc i) qs), (rs @ [r]) @ rs')"
      and l: "length rs' = min (length answers) (length qs - Suc i)" by blast
    have m: "c' + matching_answers answers (drop (Suc i) qs)
        = c + matching_answers (a # answers) (drop i qs)"
      unfolding d matching_answers_Cons c'_def by (simp add: answer_matches_def q)
    have "grade (JList qs) (a # answers) (int i) c rs
        = Inr (c + matching_answers (a # answers) (drop i qs), rs @ (r # rs'))"
      using step g m by simp
    moreover have "length (r # rs') = min (length (a # answers)) (length qs - i)"
      using l True by simp
    ultimately show ?thesis by blast
  next
    case False
    then have d: "drop i qs = []" "drop (Suc i) qs = []" by simp_all
    have step: "grade (JList qs) (a # answers) (int i) c rs
        = grade (JList qs) answers (int (Suc i)) c rs"
      using False len by (simp add: add.commute)
    from Cons.IH [of "Suc i" c rs] d obtain rs' where
      "grade (JList qs) answers (int (Suc i)) c rs
          = Inr (c + matching_answers answers (drop (Suc i) qs), rs @ rs')"
      and "length rs' = min (length answers) (length qs - Suc i)" by auto
    with step d False show ?thesis by (simp add: matching_answers_Nil)
  qed
qed

lemma evaluate_answers_list:
  assumes "map_of qd ''questions'' = Some (JList qs)" and "qs \<noteq> []" and "answers \<noteq> []"
    and "\<forall>q \<in> set (take (length answers) qs). is_object q"
  shows "\<exists>rs. evaluate_answers (JObj qd) answers
           = Inr (matching_answers answers qs, int (length qs), rs) \<and>
         length rs = min (length answers) (length qs)"
proof -
  from grade_counts [of answers 0 qs 0 "[]"] assms(4) obtain rs where
    g: "grade (JList qs) answers 0 0 [] = Inr (matching_answers answers qs, rs)"
    and l: "length rs = min (length answers) (length qs)" by auto
  from assms(2,3) have "0 < length answers" "0 < length qs" by simp_all
  then have "0 < min (length answers) (length qs)" by (simp only: min_def split: if_splits) simp
  then have "0 < length rs" by (simp only: l)
  then have "rs \<noteq> []" by simp
  then have "evaluate_answers (JObj qd) answers
      = Inr (matching_answers answers qs, int (length qs), rs)"
    using assms(1,2) g
    by (simp add: evaluate_answers_def and_then_def py_get_def dict_get_def py_truthy_def py_len_def)
  with l show ?thesis by blast
qed

text \<open>
  Claim C2, as the code has it. Let the store hold, for lesson \<open>n\<close> of the active session,
  a question set whose \<^verbatim>\<open>questions\<close> is a non-empty list \<open>qs\<close> of question objects, and
  let the answer list be non-empty. Then \<^verbatim>\<open>submit-quiz\<close> succeeds, whatever the language
  model would answer: \<^verbatim>\<open>correct_answers\<close> is the number of answers that match their
  question among the first \<open>min (length answers) (length qs)\<close> positions, \<^verbatim>\<open>results\<close>
  has that many entries, \<^verbatim>\<open>total_questions\<close> is \<open>length qs\<close>, \<^verbatim>\<open>score\<close> is
  \<^verbatim>\<open>correct_answers / total_questions * 100\<close> as Python computes it, a float division
  and a float multiplication, and \<^verbatim>\<open>passed\<close> is \<open>score \<ge> 70\<close>.
\<close>

theorem submit_quiz_grades_cached:
  assumes "current_session st = Some cs"
    and "lookup_lesson (curriculum cs) n = Inr lesson_info"
    and "quiz_cache st (quiz_key (session_id cs) n) = Some (JObj qd)"
    and "map_of qd ''questions'' = Some (JList qs)"
    and "qs \<noteq> []" and "answers \<noteq> []"
    and "\<forall>q \<in> set (take (length answers) qs). is_object q"
  shows "\<exists>doc st' rs.
      submit_quiz py st n answers llm = (Inr doc, st') \<and>
      map_of doc ''correct_answers'' = Some (JInt (matching_answers answers qs)) \<and>
      map_of doc ''total_questions'' = Some (JInt (int (length qs))) \<and>
      map_of doc ''results'' = Some (JList rs) \<and>
      length rs = min (length answers) (length qs) \<and>
      map_of doc ''score'' =
        Some (JFloat (Some
          (float_mul (float_div (matching_answers answers qs) (int (length qs))) 100))) \<and>
      map_of doc ''passed'' =
        Some (JBool
          (70 \<le> float_mul (float_div (matching_answers answers qs) (int (length qs))) 100))"
proof -
  from evaluate_answers_list [OF assms(4,5,6,7)] obtain rs where
    e: "evaluate_answers (JObj qd) answers
          = Inr (matching_answers answers qs, int (length qs), rs)"
    and l: "length rs = min (length answers) (length qs)" by blast
  note h = submit_quiz_hit [OF assms(1,2,3), of py answers llm, unfolded e, simplified]
  show ?thesis
    using h l by (simp add: quiz_report_def quiz_score_def Let_def)
qed

theorem submit_quiz_grades_cached_witness:
  "current_session example_store = Some example_session \<and>
   (\<exists>doc st'. submit_quiz example_python example_store 1 [0, 1, 2, 3, 1, 7] LLMRaises = (Inr doc, st') \<and>
      map_of doc ''correct_answers'' = Some (JInt 4) \<and>
      map_of doc ''total_questions'' = Some (JInt 5) \<and>
      map_of doc ''score'' = Some (JFloat (Some 80)) \<and>
      map_of doc ''passed'' = Some (JBool True))"
proof -
  let ?qs = "map example_question [0, 1, 2, 3, 0]"
  have s: "current_session example_store = Some example_session"
    by (simp add: example_store_def)
  have l: "lookup_lesson (curriculum example_session) 1
      = Inr (JObj [(''lesson_number'', JInt 1), (''title'', JStr ''Basics'')])"
    by (simp add: lookup_lesson_def python_ops examples)
  have c: "quiz_cache example_store (quiz_key (session_id example_session) 1)
      = Some (JObj [(''questions'', JList ?qs)])"
    by (simp add: quiz_key_def python_ops example_store_def example_session_def example_quiz_def)
  have q: "map_of [(''questions'', JList ?qs)] ''questions'' = Some (JList ?qs)"
    by simp
  have ne: "?qs \<noteq> []" "[0, 1, 2, 3, 1, 7] \<noteq> ([] :: int list)" by simp_all
  have obj: "\<forall>q \<in> set (take (length [0, 1, 2, 3, 1, 7 :: int]) ?qs). is_object q"
    by (simp add: is_object_def example_question_def)
  have m: "matching_answers [0, 1, 2, 3, 1, 7] ?qs = 4"
    by (simp add: matching_answers_def answer_matches_def example_question_def dict_get_def
        py_eq_int_def)
  have len: "int (length ?qs) = 5" by simp
  have sc: "float_mul (float_div 4 5) 100 = 80"
    using quiz_score_examples(1) by (simp add: quiz_score_def)
  from submit_quiz_grades_cached [OF s l c q ne obj, of example_python LLMRaises]
  show ?thesis
    unfolding m len sc using s by auto
qed

text \<open>
  The float score is not the exact quotient: one match out of three questions scores
  33.33333333333333 and seven out of twenty-five score 28.000000000000004, the two doubles
  below; seven out of ten score exactly 70 and pass.
\<close>

lemma float_scores:
  "float_mul (float_div 1 3) 100 = 2345624805922133 / 70368744177664"
  "float_mul (float_div 7 25) 100 = 7881299347898369 / 281474976710656"
  "float_mul (float_div 7 10) 100 = 70"
  using quiz_score_examples by (simp_all add: quiz_score_def)

text \<open>
  The claim as the spec words it covers every submitted answer list. The handler refuses the
  empty one: nothing is graded and the response is 400, not a score.
\<close>

theorem submit_quiz_empty_answers_counterexample:
  "submit_quiz example_python example_store 1 [] LLMRaises
     = (Inl (HTTPException 400 NoValidAnswers), example_store)"
  by (simp add: handlers python_ops examples)

section \<open>Submitting code for a stored challenge\<close>

lemma submit_code_not_found:
  assumes "current_session st = Some cs"
  shows "(\<exists>d. submit_code py st submitted challenge_id llm = Inl (HTTPException 404 d))
     \<longleftrightarrow> coding_quizzes st challenge_id = None"
  using assms by (auto simp: submit_code_def Let_def split: option.splits)

lemma challenge_key_not_default_id:
  "challenge_key (''session_'' @ timestamp) milestone \<noteq> default_challenge_id lessons_completed t"
  by (simp add: challenge_key_def default_challenge_id_def)

text \<open>
  Claim C1 on the code. The session has four completed lessons and no stored challenge; the
  language model fails, so \<^verbatim>\<open>GET /generate-coding-challenge\<close> returns the fallback
  challenge, whose \<^verbatim>\<open>challenge_id\<close> is \<^verbatim>\<open>challenge_4_1700000000\<close>, and stores it under
  the key \<^verbatim>\<open>session_1700000000.5_challenge_4\<close>. \<^verbatim>\<open>POST /submit-code\<close> with the
  challenge's own \<^verbatim>\<open>challenge_id\<close> looks that id up as a key of the same store and answers
  404.
\<close>

theorem submit_code_misses_stored_challenge:
  "(let st = example_store\<lparr>current_session :=
               Some (example_session\<lparr>current_lesson := 5, completed_lessons := [1, 2, 3, 4]\<rparr>)\<rparr>;
        (r, st') = generate_coding_challenge_endpoint example_python st 1700000000
                     ''2023-11-14T22:13:20'' LLMRaises
    in r = Inr [(''challenge'', JObj (fallback_challenge 4 1700000000)),
                (''message'', JStr ''Created a new coding challenge after completing 4 lessons''),
                (''is_cached'', JBool False)] \<and>
       map_of (fallback_challenge 4 1700000000) ''challenge_id''
         = Some (JStr ''challenge_4_1700000000'') \<and>
       map_option challenge_data (coding_quizzes st' ''session_1700000000.5_challenge_4'')
         = Some (fallback_challenge 4 1700000000) \<and>
       submit_code example_python st' ''print(1)'' ''challenge_4_1700000000'' LLMRaises
         = Inl (HTTPException 404 ChallengeNotFound) \<and>
       (\<exists>doc. submit_code example_python st' ''print(1)'' ''session_1700000000.5_challenge_4''
                 LLMRaises = Inr doc))"
  by (simp add: handlers python_ops examples generators)

section \<open>The fallback documents of the Content Generator\<close>

lemma parse_response_fails:
  "(\<exists>e. parse_response py llm = Inl e) \<longleftrightarrow>
     llm = LLMRaises \<or>
     (\<exists>response. llm = LLMContent response \<and>
        ((\<exists>e. clean_json_response (json_loads py) response = Inl e) \<or>
         (\<exists>s. clean_json_response (json_loads py) response = Inr s \<and> json_loads py s = None)))"
  by (cases llm)
    (auto simp: parse_response_def ainvoke_def and_then_def loads_or_raise_def
      split: sum.splits option.splits)

text \<open>
  Claim C8, as the code has it. Every generator is a \<^verbatim>\<open>try\<close> block whose handler
  returns the fallback document, so it always returns a document. It returns the fallback
  when the model call raises, when the extractor raises, or when the extracted text does
  not decode; \<^verbatim>\<open>generate_curriculum\<close>, \<^verbatim>\<open>generate_lesson_content\<close> and
  \<^verbatim>\<open>generate_coding_challenge\<close> also when the decoded value is not an object, and
  \<^verbatim>\<open>generate_curriculum\<close> when its \<^verbatim>\<open>lessons\<close> have no length. Any other decoded
  value is returned as it is (the challenge with its \<^verbatim>\<open>challenge_id\<close> filled in),
  whatever its shape: no generator checks the schema of the document.
\<close>

theorem generators_fall_back:
  "(\<forall>e. parse_response py llm = Inl e \<longrightarrow>
      generate_curriculum py lang llm = fallback_curriculum lang \<and>
      generate_lesson_content py lang n title llm = fallback_lesson_content py lang n title \<and>
      generate_quiz_questions py lang n title llm = fallback_quiz py n title \<and>
      generate_coding_challenge py lang m t llm = fallback_challenge m t \<and>
      evaluate_code py lang submitted cid challenge llm = fallback_evaluation) \<and>
   (\<forall>v. parse_response py llm = Inr v \<longrightarrow>
      generate_quiz_questions py lang n title llm = v \<and>
      evaluate_code py lang submitted cid challenge llm = v \<and>
      (\<forall>d. v = JObj d \<longrightarrow>
         generate_lesson_content py lang n title llm = d \<and>
         generate_coding_challenge py lang m t llm =
           AList.update ''challenge_id''
             (dict_get d ''challenge_id'' (JStr (default_challenge_id m t))) d \<and>
         generate_curriculum py lang llm =
           (if \<exists>e. py_len (dict_get d ''lessons'' (JList [])) = Inl e
            then fallback_curriculum lang else d)) \<and>
      (\<not> is_object v \<longrightarrow>
         generate_curriculum py lang llm = fallback_curriculum lang \<and>
         generate_lesson_content py lang n title llm = fallback_lesson_content py lang n title \<and>
         generate_coding_challenge py lang m t llm = fallback_challenge m t))"
  by (auto simp: generate_curriculum_def generate_lesson_content_def generate_quiz_questions_def
      generate_coding_challenge_def evaluate_code_def try_except_def and_then_def is_object_def Let_def
      split: sum.splits json.splits)

theorem generators_fall_back_witness:
  "parse_response example_python LLMRaises = Inl (PyError ModelError) \<and>
   generate_quiz_questions example_python ''Python'' 1 (JStr ''Basics'') LLMRaises
     = fallback_quiz example_python 1 (JStr ''Basics'') \<and>
   generate_coding_challenge example_python ''Python'' 4 1700000000 LLMRaises
     = fallback_challenge 4 1700000000 \<and>
   parse_response example_python (LLMContent ''{}'') = Inr (JObj []) \<and>
   generate_coding_challenge example_python ''Python'' 4 1700000000 (LLMContent ''{}'')
     = [(''challenge_id'', JStr ''challenge_4_1700000000'')]"
proof -
  have a: "parse_response example_python LLMRaises = Inl (PyError ModelError)"
    by (simp add: parse_response_def ainvoke_def and_then_def)
  have b: "parse_response example_python (LLMContent ''{}'') = Inr (JObj [])"
    by (simp add: parse_response_def ainvoke_def and_then_def loads_or_raise_def example_python_def
        clean_json_response_def strip_fences_def strip_def startswith_def endswith_def is_space_def)
  have c: "dict_get [] ''challenge_id'' (JStr (default_challenge_id 4 1700000000))
      = JStr ''challenge_4_1700000000''"
    by (simp add: dict_get_def default_challenge_id_def str_int_def str_nat.simps)
  note t1 = generators_fall_back [of example_python LLMRaises "''Python''" 1 "JStr ''Basics''"
      4 1700000000 "[]" "[]" "[]"]
  note t2 = generators_fall_back [of example_python "LLMContent ''{}''" "''Python''" 1
      "JStr ''Basics''" 4 1700000000 "[]" "[]" "[]"]
  from t1 a have
    "generate_quiz_questions example_python ''Python'' 1 (JStr ''Basics'') LLMRaises
       = fallback_quiz example_python 1 (JStr ''Basics'')"
    and "generate_coding_challenge example_python ''Python'' 4 1700000000 LLMRaises
       = fallback_challenge 4 1700000000"
    by blast+
  moreover from t2 b have
    "generate_coding_challenge example_python ''Python'' 4 1700000000 (LLMContent ''{}'')
       = AList.update ''challenge_id''
           (dict_get [] ''challenge_id'' (JStr (default_challenge_id 4 1700000000))) []"
    by blast
  ultimately show ?thesis using a b c by simp
qed

text \<open>
  The claim as the spec words it counts a response that violates the schema among the
  failures that end in the fallback. The model answers with the empty JSON object: it
  decodes, \<^verbatim>\<open>generate_quiz_questions\<close> returns it, a quiz without questions, and not the
  fallback quiz.
\<close>

theorem generators_schema_counterexample:
  "generate_quiz_questions example_python ''Python'' 1 (JStr ''Basics'') (LLMContent ''{}'') = JObj [] \<and>
   JObj [] \<noteq> fallback_quiz example_python 1 (JStr ''Basics'')"
  by (simp add: generate_quiz_questions_def try_except_def parse_response_def ainvoke_def
      and_then_def loads_or_raise_def example_python_def fallback_quiz_def
      clean_json_response_def strip_fences_def strip_def startswith_def endswith_def is_space_def)

section \<open>Fetching a lesson\<close>

lemma py_len_nonneg: "py_len v = Inr k \<Longrightarrow> 0 \<le> k"
  by (auto simp: py_len_def split: json.splits)

lemma python_ops_no_http:
  "dict_getitem d k \<noteq> Inl (HTTPException status dt)"
  "py_len v \<noteq> Inl (HTTPException status dt)"
  "py_index v i \<noteq> Inl (HTTPException status dt)"
  by (auto simp: dict_getitem_def py_len_def py_index_def Let_def split: option.splits json.splits)

lemma lookup_lesson_http:
  assumes "lookup_lesson cur n = Inl (HTTPException status dt)"
  shows "0 < n"
proof (cases "dict_getitem cur ''lessons''")
  case (Inl e)
  with assms show ?thesis
    by (simp add: lookup_lesson_def and_then_def python_ops_no_http)
next
  case l: (Inr lessons)
  show ?thesis
  proof (cases "py_len lessons")
    case (Inl e)
    with assms l show ?thesis
      by (simp add: lookup_lesson_def and_then_def python_ops_no_http)
  next
    case (Inr k)
    with assms l py_len_nonneg [OF Inr] show ?thesis
      by (simp add: lookup_lesson_def and_then_def python_ops_no_http split: if_splits)
  qed
qed

lemma lookup_lesson_list:
  assumes "map_of cur ''lessons'' = Some (JList ls)"
  shows "lookup_lesson cur n =
      (if int (length ls) < n then Inl (HTTPException 404 (LessonNotFound n))
       else py_index (JList ls) (n - 1))"
  using assms by (simp add: lookup_lesson_def and_then_def dict_getitem_def py_len_def)

lemma get_lesson_found:
  assumes "current_session st = Some cs" and "n \<le> current_lesson cs"
    and "map_of (curriculum cs) ''lessons'' = Some (JList ls)"
    and "lookup_lesson (curriculum cs) n = Inr (JObj info)"
  shows "get_lesson py st n llm =
      Inr [(''lesson_number'', JInt n),
           (''title'', dict_get info ''title'' JNull),
           (''description'', dict_get info ''description'' JNull),
           (''objectives'', dict_get info ''objectives'' (JList [])),
           (''content'',
              JObj (generate_lesson_content py (language cs) n
                      (dict_get info ''title'' (default_title n)) llm)),
           (''language'', JStr (language cs))]"
proof -
  from assms(3) have "curriculum cs \<noteq> []" by auto
  with assms show ?thesis
    by (simp add: get_lesson_def except_500_def and_then_def Let_def)
qed

text \<open>
  Claim C9, as the code has it. \<^verbatim>\<open>GET /lesson/{n}\<close> answers 404 when no session is
  active. With an active session it answers 403 when \<open>n\<close> is beyond \<^verbatim>\<open>current_lesson\<close>;
  else 500 when the curriculum is empty or has no \<^verbatim>\<open>lessons\<close>; else, the lessons being a
  list, 404 when \<open>n\<close> exceeds its length; else, for \<open>1 \<le> n\<close> and a lesson that is an
  object, it succeeds with the info of lesson \<open>n\<close> and the content that
  \<^verbatim>\<open>generate_lesson_content\<close> makes from the language model's answer to this request.
  The handler returns no store: it caches nothing.
\<close>

theorem get_lesson_responses:
  "(current_session st = None \<longrightarrow>
      get_lesson py st n llm = Inl (HTTPException 404 NoActiveSession)) \<and>
   (\<forall>cs. current_session st = Some cs \<longrightarrow>
      (current_lesson cs < n \<longrightarrow>
         get_lesson py st n llm = Inl (HTTPException 403 CompletePreviousLessons)) \<and>
      (n \<le> current_lesson cs \<and>
       (curriculum cs = [] \<or> map_of (curriculum cs) ''lessons'' = None) \<longrightarrow>
         get_lesson py st n llm = Inl (HTTPException 500 CurriculumNotFound)) \<and>
      (\<forall>ls. n \<le> current_lesson cs \<and> map_of (curriculum cs) ''lessons'' = Some (JList ls) \<longrightarrow>
         (int (length ls) < n \<longrightarrow>
            get_lesson py st n llm = Inl (HTTPException 404 (LessonNotFound n))) \<and>
         (\<forall>info. 1 \<le> n \<and> n \<le> int (length ls) \<and> ls ! nat (n - 1) = JObj info \<longrightarrow>
            get_lesson py st n llm =
              Inr [(''lesson_number'', JInt n),
                   (''title'', dict_get info ''title'' JNull),
                   (''description'', dict_get info ''description'' JNull),
                   (''objectives'', dict_get info ''objectives'' (JList [])),
                   (''content'',
                      JObj (generate_lesson_content py (language cs) n
                              (dict_get info ''title'' (default_title n)) llm)),
                   (''language'', JStr (language cs))])))"
proof (intro conjI allI impI)
  assume "current_session st = None"
  then show "get_lesson py st n llm = Inl (HTTPException 404 NoActiveSession)"
    by (simp add: get_lesson_def except_500_def)
next
  fix cs assume "current_session st = Some cs" and "current_lesson cs < n"
  then show "get_lesson py st n llm = Inl (HTTPException 403 CompletePreviousLessons)"
    by (simp add: get_lesson_def except_500_def)
next
  fix cs assume "current_session st = Some cs"
    and "n \<le> current_lesson cs \<and>
      (curriculum cs = [] \<or> map_of (curriculum cs) ''lessons'' = None)"
  then show "get_lesson py st n llm = Inl (HTTPException 500 CurriculumNotFound)"
    by (auto simp: get_lesson_def except_500_def)
next
  fix cs ls assume s: "current_session st = Some cs"
    and c: "n \<le> current_lesson cs \<and> map_of (curriculum cs) ''lessons'' = Some (JList ls)"
    and n: "int (length ls) < n"
  from c have "curriculum cs \<noteq> []" by auto
  with s c n show "get_lesson py st n llm = Inl (HTTPException 404 (LessonNotFound n))"
    by (simp add: get_lesson_def except_500_def and_then_def lookup_lesson_list)
next
  fix cs ls info assume s: "current_session st = Some cs"
    and c: "n \<le> current_lesson cs \<and> map_of (curriculum cs) ''lessons'' = Some (JList ls)"
    and n: "1 \<le> n \<and> n \<le> int (length ls) \<and> ls ! nat (n - 1) = JObj info"
  from c n have "lookup_lesson (curriculum cs) n = Inr (JObj info)"
    by (simp add: lookup_lesson_list py_index_def Let_def)
  with s c show "get_lesson py st n llm =
      Inr [(''lesson_number'', JInt n),
           (''title'', dict_get info ''title'' JNull),
           (''description'', dict_get info ''description'' JNull),
           (''objectives'', dict_get info ''objectives'' (JList [])),
           (''content'',
              JObj (generate_lesson_content py (language cs) n
                      (dict_get info ''title'' (default_title n)) llm)),
           (''language'', JStr (language cs))]"
    by (intro get_lesson_found) simp_all
qed

theorem get_lesson_responses_witness:
  "get_lesson example_python
     (example_store\<lparr>current_session := None\<rparr>) 1 LLMRaises
     = Inl (HTTPException 404 NoActiveSession) \<and>
   get_lesson example_python example_store 3 LLMRaises
     = Inl (HTTPException 403 CompletePreviousLessons) \<and>
   get_lesson example_python
     (example_store\<lparr>current_session := Some (example_session\<lparr>current_lesson := 9\<rparr>)\<rparr>) 5 LLMRaises
     = Inl (HTTPException 404 (LessonNotFound 5)) \<and>
   get_lesson example_python example_store 1 (LLMContent ''{}'')
     = Inr [(''lesson_number'', JInt 1), (''title'', JStr ''Basics''), (''description'', JNull),
            (''objectives'', JList []), (''content'', JObj []), (''language'', JStr ''Python'')]"
proof -
  let ?ls = "[JObj [(''lesson_number'', JInt 1), (''title'', JStr ''Basics'')],
              JObj [(''lesson_number'', JInt 2), (''title'', JStr ''Variables'')],
              JObj [(''lesson_number'', JInt 3), (''title'', JStr ''Control flow'')],
              JObj [(''lesson_number'', JInt 4), (''title'', JStr ''Functions'')]]"
  let ?st9 = "example_store\<lparr>current_session := Some (example_session\<lparr>current_lesson := 9\<rparr>)\<rparr>"
  have none: "current_session (example_store\<lparr>current_session := None\<rparr>) = None" by simp
  have s: "current_session example_store = Some example_session"
    by (simp add: example_store_def)
  have s9: "current_session ?st9 = Some (example_session\<lparr>current_lesson := 9\<rparr>)" by simp
  have ls: "map_of (curriculum example_session) ''lessons'' = Some (JList ?ls)"
    by (simp add: example_session_def example_curriculum_def)
  have g: "generate_lesson_content example_python ''Python'' 1 (JStr ''Basics'') (LLMContent ''{}'') = []"
    by (simp add: generate_lesson_content_def try_except_def parse_response_def ainvoke_def
        and_then_def loads_or_raise_def example_python_def
        clean_json_response_def strip_fences_def strip_def startswith_def endswith_def is_space_def)
  from get_lesson_responses [of "example_store\<lparr>current_session := None\<rparr>" example_python 1 LLMRaises] none
  have a: "get_lesson example_python (example_store\<lparr>current_session := None\<rparr>) 1 LLMRaises
      = Inl (HTTPException 404 NoActiveSession)" by blast
  from get_lesson_responses [of example_store example_python 3 LLMRaises] s
  have b: "get_lesson example_python example_store 3 LLMRaises
      = Inl (HTTPException 403 CompletePreviousLessons)"
    by (simp add: example_session_def)
  from get_lesson_responses [of ?st9 example_python 5 LLMRaises] s9 ls
  have c: "get_lesson example_python ?st9 5 LLMRaises = Inl (HTTPException 404 (LessonNotFound 5))"
    by (simp add: example_session_def)
  from get_lesson_responses [of example_store example_python 1 "LLMContent ''{}''"] s ls
  have d: "get_lesson example_python example_store 1 (LLMContent ''{}'')
      = Inr [(''lesson_number'', JInt 1), (''title'', JStr ''Basics''), (''description'', JNull),
             (''objectives'', JList []), (''content'', JObj []), (''language'', JStr ''Python'')]"
    using g by (simp add: example_session_def dict_get_def default_title_def)
  from a b c d show ?thesis by blast
qed

text \<open>
  The claim as the spec words it lets every request that passes the 403 and 404 checks
  succeed. A language model that answers the curriculum request with the empty JSON object
  gives a session whose curriculum is empty: the first lesson is unlocked, and fetching it
  is answered 500 by the handler's own guard.
\<close>

theorem get_lesson_empty_curriculum_counterexample:
  "get_lesson example_python
     (snd (select_language example_python example_store ''Python'' ''1700000000.5''
             ''2023-11-14T22:13:20.500000'' (LLMContent ''{}'')))
     1 LLMRaises
   = Inl (HTTPException 500 CurriculumNotFound)"
  by (simp add: select_language_def generate_curriculum_def get_lesson_def Let_def
      try_except_def except_500_def parse_response_def ainvoke_def and_then_def loads_or_raise_def
      example_python_def py_len_def dict_get_def
      clean_json_response_def strip_fences_def strip_def startswith_def endswith_def is_space_def)

text \<open>
  Claim C10, as the code has it. With an active session (whose \<^verbatim>\<open>current_lesson\<close> is at
  least 1) and \<open>n \<le> 0\<close>, the request never ends in 403 or 404: every error is a 500.
  When the lessons are a list of length \<open>len\<close>, it is answered from the lesson at position
  \<open>len + n - 1\<close>, counted from 0, as long as \<open>- len < n\<close> (so \<open>n = 0\<close> serves the last
  lesson); for \<open>n \<le> - len\<close> the index is out of range and the answer is 500.
\<close>

theorem get_lesson_nonpositive:
  assumes "current_session st = Some cs" and "1 \<le> current_lesson cs" and "n \<le> 0"
  shows "(\<forall>status d. get_lesson py st n llm = Inl (HTTPException status d) \<longrightarrow> status = 500) \<and>
     (\<forall>e. get_lesson py st n llm \<noteq> Inl (PyError e)) \<and>
     (\<forall>ls. map_of (curriculum cs) ''lessons'' = Some (JList ls) \<longrightarrow>
        (n \<le> - int (length ls) \<longrightarrow>
           get_lesson py st n llm = Inl (HTTPException 500 ErrorFetchingLesson)) \<and>
        (\<forall>info. - int (length ls) < n \<and> ls ! nat (int (length ls) + n - 1) = JObj info \<longrightarrow>
           get_lesson py st n llm =
             Inr [(''lesson_number'', JInt n),
                  (''title'', dict_get info ''title'' JNull),
                  (''description'', dict_get info ''description'' JNull),
                  (''objectives'', dict_get info ''objectives'' (JList [])),
                  (''content'',
                     JObj (generate_lesson_content py (language cs) n
                             (dict_get info ''title'' (default_title n)) llm)),
                  (''language'', JStr (language cs))]))"
proof (intro conjI allI impI)
  fix status d assume "get_lesson py st n llm = Inl (HTTPException status d)"
  then show "status = 500"
    using assms
    by (auto simp: get_lesson_def except_500_def and_then_def
        split: if_splits sum.splits exn.splits json.splits dest: lookup_lesson_http)
next
  fix e show "get_lesson py st n llm \<noteq> Inl (PyError e)"
    by (auto simp: get_lesson_def except_500_def split: sum.splits exn.splits)
next
  fix ls assume ls: "map_of (curriculum cs) ''lessons'' = Some (JList ls)"
    and n: "n \<le> - int (length ls)"
  from ls have ne: "curriculum cs \<noteq> []" by auto
  from assms n have "lookup_lesson (curriculum cs) n = Inl (PyError IndexError)"
    by (simp add: lookup_lesson_list [OF ls] py_index_def Let_def)
  with assms ls ne show "get_lesson py st n llm = Inl (HTTPException 500 ErrorFetchingLesson)"
    by (simp add: get_lesson_def except_500_def and_then_def)
next
  fix ls info assume ls: "map_of (curriculum cs) ''lessons'' = Some (JList ls)"
    and n: "- int (length ls) < n \<and> ls ! nat (int (length ls) + n - 1) = JObj info"
  from assms n have "lookup_lesson (curriculum cs) n = Inr (JObj info)"
    by (simp add: lookup_lesson_list [OF ls] py_index_def Let_def algebra_simps)
  with assms ls show "get_lesson py st n llm =
      Inr [(''lesson_number'', JInt n),
           (''title'', dict_get info ''title'' JNull),
           (''description'', dict_get info ''description'' JNull),
           (''objectives'', dict_get info ''objectives'' (JList [])),
           (''content'',
              JObj (generate_lesson_content py (language cs) n
                      (dict_get info ''title'' (default_title n)) llm)),
           (''language'', JStr (language cs))]"
    by (intro get_lesson_found) simp_all
qed

theorem get_lesson_nonpositive_witness:
  "current_session example_store = Some example_session \<and>
   1 \<le> current_lesson example_session \<and>
   get_lesson example_python example_store 0 (LLMContent ''{}'')
     = Inr [(''lesson_number'', JInt 0), (''title'', JStr ''Functions''), (''description'', JNull),
            (''objectives'', JList []), (''content'', JObj []), (''language'', JStr ''Python'')]"
proof -
  let ?ls = "[JObj [(''lesson_number'', JInt 1), (''title'', JStr ''Basics'')],
              JObj [(''lesson_number'', JInt 2), (''title'', JStr ''Variables'')],
              JObj [(''lesson_number'', JInt 3), (''title'', JStr ''Control flow'')],
              JObj [(''lesson_number'', JInt 4), (''title'', JStr ''Functions'')]]"
  have s: "current_session example_store = Some example_session"
    by (simp add: example_store_def)
  have c: "1 \<le> current_lesson example_session"
    by (simp add: example_session_def)
  have ls: "map_of (curriculum example_session) ''lessons'' = Some (JList ?ls)"
    by (simp add: example_session_def example_curriculum_def)
  have g: "generate_lesson_content example_python ''Python'' 0 (JStr ''Functions'') (LLMContent ''{}'') = []"
    by (simp add: generate_lesson_content_def try_except_def parse_response_def ainvoke_def
        and_then_def loads_or_raise_def example_python_def
        clean_json_response_def strip_fences_def strip_def startswith_def endswith_def is_space_def)
  from get_lesson_nonpositive [OF s c, of 0 example_python "LLMContent ''{}''"] ls
  have "get_lesson example_python example_store 0 (LLMContent ''{}'')
     = Inr [(''lesson_number'', JInt 0), (''title'', JStr ''Functions''), (''description'', JNull),
            (''objectives'', JList []), (''content'', JObj []), (''language'', JStr ''Python'')]"
    using g by (simp add: example_session_def dict_get_def default_title_def)
  with s c show ?thesis by blast
qed

text \<open>
  The claim as the spec words it has every \<open>n \<le> 0\<close> return the content of a lesson
  counted from the end. With four lessons, \<open>n = - 4\<close> asks for position \<open>- 5\<close>: the index is
  out of range and the answer is 500.
\<close>

theorem get_lesson_nonpositive_counterexample:
  "get_lesson example_python example_store (- 4) LLMRaises
     = Inl (HTTPException 500 ErrorFetchingLesson)"
  by (simp add: get_lesson_def lookup_lesson_def python_ops examples)

end
